theory Spec2Isabelle
  imports Main
begin

section \<open>Python values, dictionaries and exceptions\<close>

text \<open>
  The plugin is Python 2 code over dynamically typed data: node properties, runtime
  properties, NIC descriptors and provider objects are dictionaries (or objects read by
  attribute name) whose values are strings, booleans, numbers, lists or further
  dictionaries. A dictionary is an association list read with \<open>map_of\<close>; an
  object is the association list of its attributes.
\<close>

datatype pyval =
    VNone
  | VBool bool
  | VInt int
  | VStr string
  | VList "pyval list"
  | VDict "(string \<times> pyval) list"

type_synonym pydict = "(string \<times> pyval) list"

text \<open>Python truthiness, as \<open>if x:\<close> and \<open>not x\<close> read a value.\<close>

fun truthy :: "pyval \<Rightarrow> bool" where
  "truthy VNone = False"
| "truthy (VBool b) = b"
| "truthy (VInt i) = (i \<noteq> 0)"
| "truthy (VStr s) = (s \<noteq> [])"
| "truthy (VList xs) = (xs \<noteq> [])"
| "truthy (VDict d) = (d \<noteq> [])"

text \<open>
  The exceptions the modelled code raises or lets through. \<open>NonRecoverableErrorOf e\<close>
  is \<open>NonRecoverableError(e)\<close>, the error built around another exception;
  \<open>ClientException code msg\<close> is an exception of a provider client library with its
  HTTP status code (404 is \<open>NotFound\<close>).
\<close>

datatype exc =
    NonRecoverableError string
  | NonRecoverableErrorOf exc
  | RecoverableError string
  | KeyError string
  | AttributeError string
  | TypeError string
  | ValueError string
  | RuntimeError string
  | ClientException int string

fun is_NonRecoverableError :: "exc \<Rightarrow> bool" where
  "is_NonRecoverableError (NonRecoverableError m) = True"
| "is_NonRecoverableError (NonRecoverableErrorOf e) = True"
| "is_NonRecoverableError e = False"

text \<open>\<open>k in d\<close>, \<open>d.get(k)\<close>, \<open>d.get(k, default)\<close>, \<open>d[k]\<close>, \<open>d[k] = v\<close> and \<open>del d[k]\<close>.\<close>

definition has_key :: "pydict \<Rightarrow> string \<Rightarrow> bool" where
  "has_key d k = (map_of d k \<noteq> None)"

definition dict_get :: "pydict \<Rightarrow> string \<Rightarrow> pyval" where
  "dict_get d k = (case map_of d k of None \<Rightarrow> VNone | Some v \<Rightarrow> v)"

definition dict_get_default :: "pydict \<Rightarrow> string \<Rightarrow> pyval \<Rightarrow> pyval" where
  "dict_get_default d k dflt = (case map_of d k of None \<Rightarrow> dflt | Some v \<Rightarrow> v)"

definition dict_item :: "pydict \<Rightarrow> string \<Rightarrow> exc + pyval" where
  "dict_item d k = (case map_of d k of None \<Rightarrow> Inl (KeyError k) | Some v \<Rightarrow> Inr v)"

definition dict_set :: "pydict \<Rightarrow> string \<Rightarrow> pyval \<Rightarrow> pydict" where
  "dict_set d k v =
     (if has_key d k then map (\<lambda>kv. if fst kv = k then (k, v) else kv) d
      else d @ [(k, v)])"

definition dict_del :: "pydict \<Rightarrow> string \<Rightarrow> pydict" where
  "dict_del d k = filter (\<lambda>kv. fst kv \<noteq> k) d"

text \<open>\<open>getattr(obj, name)\<close> and \<open>obj.name\<close> on a provider object.\<close>

definition getattr :: "pydict \<Rightarrow> string \<Rightarrow> exc + pyval" where
  "getattr obj name = (case map_of obj name of None \<Rightarrow> Inl (AttributeError name) | Some v \<Rightarrow> Inr v)"

text \<open>\<open>obj[k]\<close> on a value: a dictionary is subscripted, anything else is a TypeError.\<close>

fun py_subscript :: "pyval \<Rightarrow> string \<Rightarrow> exc + pyval" where
  "py_subscript (VDict d) k = dict_item d k"
| "py_subscript v k = Inl (TypeError ''object is not subscriptable by a key'')"

text \<open>
  \<open>a in b\<close>. On two strings it is substring containment; on a list, membership; on a
  dictionary, key membership (an unhashable left operand is a TypeError); \<open>None\<close>,
  booleans and numbers are not iterable.
\<close>

fun is_prefix :: "string \<Rightarrow> string \<Rightarrow> bool" where
  "is_prefix [] s = True"
| "is_prefix (c # cs) [] = False"
| "is_prefix (c # cs) (d # ds) = (c = d \<and> is_prefix cs ds)"

fun str_contains :: "string \<Rightarrow> string \<Rightarrow> bool" where
  "str_contains [] sub = (sub = [])"
| "str_contains (c # cs) sub = (is_prefix sub (c # cs) \<or> str_contains cs sub)"

fun py_in :: "pyval \<Rightarrow> pyval \<Rightarrow> exc + bool" where
  "py_in (VStr a) (VStr b) = Inr (str_contains b a)"
| "py_in a (VStr b) = Inl (TypeError ''in <string> requires string as left operand'')"
| "py_in a (VList xs) = Inr (a \<in> set xs)"
| "py_in (VStr k) (VDict d) = Inr (has_key d k)"
| "py_in (VList xs) (VDict d) = Inl (TypeError ''unhashable type'')"
| "py_in (VDict x) (VDict d) = Inl (TypeError ''unhashable type'')"
| "py_in a (VDict d) = Inr False"
| "py_in a b = Inl (TypeError ''argument is not iterable'')"

text \<open>
  A list comprehension or an eager \<open>map\<close> (Python 2) whose body may raise: the elements
  are computed in order and the first exception ends the whole expression.
\<close>

fun map_exc :: "('a \<Rightarrow> exc + 'b) \<Rightarrow> 'a list \<Rightarrow> exc + 'b list" where
  "map_exc f [] = Inr []"
| "map_exc f (x # xs) =
     (case f x of
        Inl e \<Rightarrow> Inl e
      | Inr y \<Rightarrow> (case map_exc f xs of Inl e \<Rightarrow> Inl e | Inr ys \<Rightarrow> Inr (y # ys)))"

section \<open>The operation context and the provider clients\<close>

text \<open>
  The ambient \<open>ctx\<close> of a node operation, with the parts the modelled functions
  read: \<open>ctx.node.properties\<close>, \<open>ctx.instance.runtime_properties\<close>, for each
  relationship of \<open>ctx.instance.relationships\<close> (in declared order) the runtime
  properties of its target instance, \<open>ctx.bootstrap_context.resources_prefix\<close> (the
  empty string when it is unset), the \<open>resources\<close> of the provider context,
  \<open>ctx.deployment.id\<close>, \<open>ctx.instance.id\<close> and \<open>ctx.operation.retry_number\<close>.
\<close>

record node_instance_ctx =
  properties :: pydict
  runtime_properties :: pydict
  relationships :: "pydict list"
  resources_prefix :: string
  provider_resources :: pydict
  deployment_id :: string
  instance_id :: string
  retry_number :: nat

text \<open>
  A client "with sugar" (\<open>NovaClientWithSugar\<close>, \<open>NeutronClientWithSugar\<close>, ...). The
  provider behind it is outside the repository, so its answers are fields of the
  record: \<open>cosmo_list\<close> lists the resources of a type that match keyword filters,
  \<open>provider_quota\<close> is the quota the provider reports for a type, \<open>show_port\<close> is
  neutron's port lookup. Each may raise.
\<close>

datatype client_kind = Nova | Neutron | Cinder | Keystone | Glance

record sugared_client =
  client_kind :: client_kind
  cosmo_list :: "string \<Rightarrow> pydict \<Rightarrow> exc + pydict list"
  provider_quota :: "string \<Rightarrow> exc + int"
  show_port :: "pyval \<Rightarrow> exc + pyval"

text \<open>
  Constants the modelled functions import from modules of the plugin that are not among
  the sources (\<open>cinder_plugin.volume\<close>, \<open>neutron_plugin.network\<close>,
  \<open>neutron_plugin.port\<close>, \<open>openstack_plugin_common.floatingip\<close>): they are parameters of the model, so every theorem holds
  for whatever strings they are.
\<close>

record plugin_constants =
  NETWORK_OPENSTACK_TYPE :: string
  PORT_OPENSTACK_TYPE :: string
  VOLUME_OPENSTACK_TYPE :: string
  VOLUME_BOOTABLE :: string
  DEVICE_NAME_PROPERTY :: string
  VOLUME_STATUS_IN_USE :: string
  VOLUME_STATUS_AVAILABLE :: string
  FLOATINGIP_OPENSTACK_TYPE :: string

definition OPENSTACK_AZ_PROPERTY :: string where "OPENSTACK_AZ_PROPERTY = ''availability_zone''"
definition OPENSTACK_ID_PROPERTY :: string where "OPENSTACK_ID_PROPERTY = ''external_id''"
definition OPENSTACK_TYPE_PROPERTY :: string where "OPENSTACK_TYPE_PROPERTY = ''external_type''"
definition OPENSTACK_NAME_PROPERTY :: string where "OPENSTACK_NAME_PROPERTY = ''external_name''"
definition OPENSTACK_RESOURCE_PROPERTY :: string where "OPENSTACK_RESOURCE_PROPERTY = ''external_resource''"
definition CONDITIONALLY_CREATED :: string where "CONDITIONALLY_CREATED = ''conditionally_created''"
definition USE_EXTERNAL_RESOURCE_PROPERTY :: string where "USE_EXTERNAL_RESOURCE_PROPERTY = ''use_external_resource''"
definition CREATE_IF_MISSING_PROPERTY :: string where "CREATE_IF_MISSING_PROPERTY = ''create_if_missing''"

subsection \<open>Relationship queries (openstack_plugin_common)\<close>

definition get_relationships_by_openstack_type :: "node_instance_ctx \<Rightarrow> string \<Rightarrow> pydict list" where
  "get_relationships_by_openstack_type ctx type_name =
     filter (\<lambda>rp. dict_get rp OPENSTACK_TYPE_PROPERTY = VStr type_name) (relationships ctx)"

definition get_openstack_ids_of_connected_nodes_by_openstack_type ::
  "node_instance_ctx \<Rightarrow> string \<Rightarrow> exc + pyval list" where
  "get_openstack_ids_of_connected_nodes_by_openstack_type ctx type_name =
     map_exc (\<lambda>rp. dict_item rp OPENSTACK_ID_PROPERTY)
       (get_relationships_by_openstack_type ctx type_name)"

subsection \<open>Lookups through a client (OpenStackClient)\<close>

text \<open>
  \<open>_cosmo_get\<close>: list, then \<open>len(ls) > 1\<close> (if_exists) or \<open>len(ls) != 1\<close> is a
  NonRecoverableError, else the first element or \<open>None\<close>.
\<close>

definition cosmo_get :: "sugared_client \<Rightarrow> string \<Rightarrow> bool \<Rightarrow> pydict \<Rightarrow> exc + pydict option" where
  "cosmo_get client obj_type_single if_exists kw =
     (case cosmo_list client obj_type_single kw of
        Inl e \<Rightarrow> Inl e
      | Inr ls \<Rightarrow>
          if (if if_exists then 1 < length ls else length ls \<noteq> 1)
          then Inl (NonRecoverableError ''Expected at most/exactly one object of type {1} with match {2}'')
          else Inr (case ls of [] \<Rightarrow> None | x # xs \<Rightarrow> Some x))"

definition cosmo_get_if_exists :: "sugared_client \<Rightarrow> string \<Rightarrow> pydict \<Rightarrow> exc + pydict option" where
  "cosmo_get_if_exists client obj_type_single kw = cosmo_get client obj_type_single True kw"

definition cosmo_get_named :: "sugared_client \<Rightarrow> string \<Rightarrow> pyval \<Rightarrow> exc + pydict option" where
  "cosmo_get_named client obj_type_single name =
     cosmo_get client obj_type_single False [(''name'', name)]"

section \<open>Network interface composition (nova_plugin/server.py)\<close>

text \<open>
  \<open>transform_resource_name\<close> on a string: the resources prefix, when there is one, is
  put in front of the name.
\<close>

definition transform_resource_name :: "node_instance_ctx \<Rightarrow> string \<Rightarrow> string" where
  "transform_resource_name ctx name =
     (if resources_prefix ctx = [] then name else resources_prefix ctx @ name)"

text \<open>
  \<open>_get_management_network_id_and_name\<close>. The property \<open>management_network_name\<close> is
  a string by the node type; a truthy value of another type is reported as the
  ValueError of \<open>transform_resource_name\<close>.
\<close>

definition get_management_network_id_and_name ::
  "sugared_client \<Rightarrow> node_instance_ctx \<Rightarrow> exc + (pyval \<times> pyval)" where
  "get_management_network_id_and_name neutron_client ctx =
     (let management_network_name = dict_get (properties ctx) ''management_network_name'' in
      if truthy management_network_name then
        (case management_network_name of
           VStr s \<Rightarrow>
             (case cosmo_get_named neutron_client ''network'' (VStr (transform_resource_name ctx s)) of
                Inl e \<Rightarrow> Inl e
              | Inr None \<Rightarrow> Inl (TypeError ''NoneType object has no attribute __getitem__'')
              | Inr (Some network) \<Rightarrow>
                  (case dict_item network ''id'' of
                     Inl e \<Rightarrow> Inl e
                   | Inr network_id \<Rightarrow> Inr (network_id, VStr (transform_resource_name ctx s))))
         | other \<Rightarrow> Inl (ValueError ''transform_resource_name() expects either string or dict''))
      else
        (let int_network = dict_get (provider_resources ctx) ''int_network'' in
         if truthy int_network then
           (case py_subscript int_network ''id'' of
              Inl e \<Rightarrow> Inl e
            | Inr network_id \<Rightarrow>
                (case py_subscript int_network ''name'' of
                   Inl e \<Rightarrow> Inl e
                 | Inr network_name \<Rightarrow> Inr (network_id, network_name)))
         else Inr (VNone, management_network_name)))"

text \<open>
  \<open>_merge_nics\<close>. The sources are concatenated; \<open>any(nic['net-id'] == id for nic in
  merged)\<close> reads the entries in order, stops at the first match and raises KeyError at
  an entry without \<open>net-id\<close> that it reaches.
\<close>

fun any_net_id :: "pyval \<Rightarrow> pydict list \<Rightarrow> exc + bool" where
  "any_net_id management_network_id [] = Inr False"
| "any_net_id management_network_id (nic # merged) =
     (case dict_item nic ''net-id'' of
        Inl e \<Rightarrow> Inl e
      | Inr v \<Rightarrow> if v = management_network_id then Inr True
                 else any_net_id management_network_id merged)"

definition merge_nics :: "pyval \<Rightarrow> pydict list list \<Rightarrow> exc + pydict list" where
  "merge_nics management_network_id nics_sources =
     (let merged = concat nics_sources in
      if management_network_id \<noteq> VNone then
        (case any_net_id management_network_id merged of
           Inl e \<Rightarrow> Inl e
         | Inr found \<Rightarrow>
             if found then Inr merged
             else Inr ([(''net-id'', management_network_id)] # merged))
      else Inr merged)"


text \<open>
  \<open>_normalize_nics\<close>: an entry that has both keys \<open>port-id\<close> and \<open>net-id\<close> is copied
  and loses \<open>net-id\<close>; every other entry is returned as it is.
\<close>

definition normalize :: "pydict \<Rightarrow> pydict" where
  "normalize nic =
     (if has_key nic ''port-id'' \<and> has_key nic ''net-id'' then dict_del nic ''net-id''
      else nic)"

definition normalize_nics :: "pydict list \<Rightarrow> pydict list" where
  "normalize_nics nics = map normalize nics"

text \<open>
  \<open>get_port_networks\<close>: one \<open>show_port\<close> per port id, in order; each answer gives
  an entry with the port's network id and the port's id.
\<close>

definition get_network :: "sugared_client \<Rightarrow> pyval \<Rightarrow> exc + pydict" where
  "get_network neutron_client port_id =
     (case show_port neutron_client port_id of
        Inl e \<Rightarrow> Inl e
      | Inr port \<Rightarrow>
          (case py_subscript port ''port'' of
             Inl e \<Rightarrow> Inl e
           | Inr p \<Rightarrow>
               (case py_subscript p ''network_id'' of
                  Inl e \<Rightarrow> Inl e
                | Inr network_id \<Rightarrow>
                    (case py_subscript p ''id'' of
                       Inl e \<Rightarrow> Inl e
                     | Inr pid \<Rightarrow> Inr [(''net-id'', network_id), (''port-id'', pid)]))))"

definition get_port_networks :: "sugared_client \<Rightarrow> pyval list \<Rightarrow> exc + pydict list" where
  "get_port_networks neutron_client port_ids = map_exc (get_network neutron_client) port_ids"

text \<open>
  The loop of \<open>_prepare_server_nics\<close> that drops the network ids a port already
  implies:
  \<^verbatim>\<open>
    for port_network in port_networks:
        for network_id in network_ids:
            if network_id in port_network.get('net-id'):
                network_ids.remove(network_id)
  \<close>
  The inner \<open>for\<close> walks the list by index while \<open>remove\<close> shortens it: the
  iterator's next index is \<open>i + 1\<close> whether or not the element at \<open>i\<close> was removed,
  and it stops when the index reaches the current length. \<open>remove\<close> deletes the first
  element equal to its argument.
\<close>

function remove_while_iterating :: "pyval \<Rightarrow> nat \<Rightarrow> pyval list \<Rightarrow> exc + pyval list" where
  "remove_while_iterating net_id i network_ids =
     (if i < length network_ids then
        (case py_in (network_ids ! i) net_id of
           Inl e \<Rightarrow> Inl e
         | Inr found \<Rightarrow>
             if found
             then remove_while_iterating net_id (Suc i) (remove1 (network_ids ! i) network_ids)
             else remove_while_iterating net_id (Suc i) network_ids)
      else Inr network_ids)"
  by pat_completeness auto
termination
  by (relation "measure (\<lambda>(net_id, i, network_ids). length network_ids - i)")
     (auto simp: length_remove1)

declare remove_while_iterating.simps [simp del]

fun remove_port_networks :: "pydict list \<Rightarrow> pyval list \<Rightarrow> exc + pyval list" where
  "remove_port_networks [] network_ids = Inr network_ids"
| "remove_port_networks (port_network # port_networks) network_ids =
     (case remove_while_iterating (dict_get port_network ''net-id'') 0 network_ids of
        Inl e \<Rightarrow> Inl e
      | Inr network_ids' \<Rightarrow> remove_port_networks port_networks network_ids')"

text \<open>
  \<open>server.get('nics', [])\<close> is read as a list of dictionaries; a value of another
  shape is reported as a TypeError.
\<close>

fun as_dict :: "pyval \<Rightarrow> exc + pydict" where
  "as_dict (VDict d) = Inr d"
| "as_dict v = Inl (TypeError ''a NIC is expected to be a dictionary'')"

fun as_dict_list :: "pyval \<Rightarrow> exc + pydict list" where
  "as_dict_list (VList xs) = map_exc as_dict xs"
| "as_dict_list v = Inl (TypeError ''nics is expected to be a list'')"

text \<open>\<open>server['meta'][key] = v\<close>.\<close>

definition set_meta :: "pydict \<Rightarrow> string \<Rightarrow> pyval \<Rightarrow> exc + pydict" where
  "set_meta server key v =
     (case dict_item server ''meta'' of
        Inl e \<Rightarrow> Inl e
      | Inr (VDict meta) \<Rightarrow> Inr (dict_set server ''meta'' (VDict (dict_set meta key v)))
      | Inr other \<Rightarrow> Inl (TypeError ''object does not support item assignment''))"

text \<open>\<open>_prepare_server_nics\<close>; the result is the updated \<open>server\<close> dictionary.\<close>

definition prepare_server_nics ::
  "plugin_constants \<Rightarrow> sugared_client \<Rightarrow> node_instance_ctx \<Rightarrow> pydict \<Rightarrow> exc + pydict" where
  "prepare_server_nics K neutron_client ctx server =
     (case get_openstack_ids_of_connected_nodes_by_openstack_type ctx (NETWORK_OPENSTACK_TYPE K) of
        Inl e \<Rightarrow> Inl e
      | Inr network_ids \<Rightarrow>
     (case get_openstack_ids_of_connected_nodes_by_openstack_type ctx (PORT_OPENSTACK_TYPE K) of
        Inl e \<Rightarrow> Inl e
      | Inr port_ids \<Rightarrow>
     (case get_management_network_id_and_name neutron_client ctx of
        Inl e \<Rightarrow> Inl e
      | Inr (management_network_id, management_network_name) \<Rightarrow>
     (case get_port_networks neutron_client port_ids of
        Inl e \<Rightarrow> Inl e
      | Inr port_networks \<Rightarrow>
     (case remove_port_networks port_networks network_ids of
        Inl e \<Rightarrow> Inl e
      | Inr network_ids' \<Rightarrow>
     (case as_dict_list (dict_get_default server ''nics'' (VList [])) of
        Inl e \<Rightarrow> Inl e
      | Inr inline_nics \<Rightarrow>
     (case merge_nics management_network_id
             [inline_nics, map (\<lambda>net_id. [(''net-id'', net_id)]) network_ids', port_networks] of
        Inl e \<Rightarrow> Inl e
      | Inr nics \<Rightarrow>
     (let server1 = dict_set server ''nics'' (VList (map VDict (normalize_nics nics))) in
      case (if management_network_id \<noteq> VNone
            then set_meta server1 ''cloudify_management_network_id'' management_network_id
            else Inr server1) of
        Inl e \<Rightarrow> Inl e
      | Inr server2 \<Rightarrow>
          if management_network_name \<noteq> VNone
          then set_meta server2 ''cloudify_management_network_name'' management_network_name
          else Inr server2))))))))"

section \<open>Resource identity (openstack_plugin_common)\<close>

text \<open>
  Error messages are kept as the source's format strings; the values a run would put
  in their place are not rendered.
\<close>

definition MISSING_RESOURCE_MESSAGE :: string where
  "MISSING_RESOURCE_MESSAGE = ''Couldnt find a resource of type {0} with the name or id {1}''"

definition QUOTA_MESSAGE :: string where
  "QUOTA_MESSAGE =
     ''{0} (node {1}) cannot be created due to quota limitations. provisioned {2}: {3}, quota: {4}''"

definition INFINITE_RESOURCE_QUOTA :: int where
  "INFINITE_RESOURCE_QUOTA = - 1"

definition COMMON_RUNTIME_PROPERTIES_KEYS :: "string list" where
  "COMMON_RUNTIME_PROPERTIES_KEYS =
     [OPENSTACK_ID_PROPERTY, OPENSTACK_TYPE_PROPERTY, OPENSTACK_NAME_PROPERTY,
      OPENSTACK_RESOURCE_PROPERTY, CONDITIONALLY_CREATED]"

definition is_external_resource_by_properties :: "pydict \<Rightarrow> bool" where
  "is_external_resource_by_properties props =
     (has_key props USE_EXTERNAL_RESOURCE_PROPERTY \<and>
      truthy (dict_get props USE_EXTERNAL_RESOURCE_PROPERTY))"

definition is_create_if_missing_by_properties :: "pydict \<Rightarrow> bool" where
  "is_create_if_missing_by_properties props =
     (has_key props CREATE_IF_MISSING_PROPERTY \<and>
      truthy (dict_get props CREATE_IF_MISSING_PROPERTY))"

definition is_external_resource :: "node_instance_ctx \<Rightarrow> bool" where
  "is_external_resource ctx = is_external_resource_by_properties (properties ctx)"

definition is_create_if_missing :: "node_instance_ctx \<Rightarrow> bool" where
  "is_create_if_missing ctx = is_create_if_missing_by_properties (properties ctx)"

definition is_external_resource_not_conditionally_created :: "node_instance_ctx \<Rightarrow> bool" where
  "is_external_resource_not_conditionally_created ctx =
     (is_external_resource_by_properties (properties ctx) \<and>
      \<not> truthy (dict_get (runtime_properties ctx) CONDITIONALLY_CREATED))"

text \<open>
  A resource a client returns is a dictionary (neutron) or an object (the other
  clients). \<open>not resource\<close> holds of \<open>None\<close> and of an empty dictionary; an object is
  always truthy.
\<close>

definition resource_truthy :: "sugared_client \<Rightarrow> pydict option \<Rightarrow> bool" where
  "resource_truthy client resource =
     (case resource of
        None \<Rightarrow> False
      | Some r \<Rightarrow> (if client_kind client = Neutron then r \<noteq> [] else True))"

definition get_id_from_resource :: "sugared_client \<Rightarrow> pydict \<Rightarrow> exc + pyval" where
  "get_id_from_resource client resource =
     (if client_kind client = Neutron then dict_item resource ''id'' else getattr resource ''id'')"

definition get_name_from_resource :: "sugared_client \<Rightarrow> pydict \<Rightarrow> exc + pyval" where
  "get_name_from_resource client resource =
     (if client_kind client = Neutron then dict_item resource ''name'' else getattr resource ''name'')"

definition cosmo_plural :: "string \<Rightarrow> string" where
  "cosmo_plural obj_type_single = obj_type_single @ ''s''"

text \<open>
  \<open>get_quota\<close> of each client class: nova's raises, neutron's and cinder's ask the
  provider, keystone's and glance's return the constant \<open>10**9\<close>.
\<close>

definition get_quota :: "sugared_client \<Rightarrow> string \<Rightarrow> exc + int" where
  "get_quota client obj_type_single =
     (case client_kind client of
        Nova \<Rightarrow> Inl (RuntimeError
          ''Retrieving quotas from Nova service is currently unsupported due to a bug in Nova python client'')
      | Neutron \<Rightarrow> provider_quota client obj_type_single
      | Cinder \<Rightarrow> provider_quota client (cosmo_plural obj_type_single)
      | Keystone \<Rightarrow> Inr (10 ^ 9)
      | Glance \<Rightarrow> Inr (10 ^ 9))"

definition get_resource_by_name_or_id ::
  "pyval \<Rightarrow> string \<Rightarrow> sugared_client \<Rightarrow> bool \<Rightarrow> string \<Rightarrow> exc + pydict option" where
  "get_resource_by_name_or_id resource_id openstack_type client raise_if_not_found name_field_name =
     (case cosmo_get_if_exists client openstack_type [(name_field_name, resource_id)] of
        Inl e \<Rightarrow> Inl e
      | Inr by_name \<Rightarrow>
          (case (if \<not> resource_truthy client by_name
                 then cosmo_get_if_exists client openstack_type [(''id'', resource_id)]
                 else Inr by_name) of
             Inl e \<Rightarrow> Inl e
           | Inr resource \<Rightarrow>
               if \<not> resource_truthy client resource \<and> raise_if_not_found
               then Inl (NonRecoverableError MISSING_RESOURCE_MESSAGE)
               else Inr resource))"

text \<open>
  \<open>_get_resource_by_name_or_id_from_ctx\<close>. The default of \<open>runtime_properties.get\<close>,
  \<open>ctx.node.properties['resource_id']\<close>, is evaluated before the call: a node without
  that property is a KeyError.
\<close>

definition get_resource_by_name_or_id_from_ctx ::
  "node_instance_ctx \<Rightarrow> string \<Rightarrow> string \<Rightarrow> sugared_client \<Rightarrow> exc + pydict option" where
  "get_resource_by_name_or_id_from_ctx ctx name_field_name openstack_type client =
     (case dict_item (properties ctx) ''resource_id'' of
        Inl e \<Rightarrow> Inl e
      | Inr dflt \<Rightarrow>
          (let resource_id = dict_get_default (runtime_properties ctx) OPENSTACK_ID_PROPERTY dflt in
           if \<not> truthy resource_id
           then Inl (NonRecoverableError
             ''Cant set use_external_resource to True without supplying a value for resource_id'')
           else get_resource_by_name_or_id resource_id openstack_type client True name_field_name))"

text \<open>
  \<open>use_external_resource\<close>: the updated context and the resource found (\<open>None\<close> when
  the caller is to create the resource). Only a NonRecoverableError of the lookup is
  caught. When an exception leaves the function the context is not returned.
\<close>

definition use_external_resource ::
  "plugin_constants \<Rightarrow> node_instance_ctx \<Rightarrow> sugared_client \<Rightarrow> string \<Rightarrow> string
   \<Rightarrow> exc + (node_instance_ctx \<times> pydict option)" where
  "use_external_resource K ctx client openstack_type name_field_name =
     (if \<not> is_external_resource ctx then Inr (ctx, None)
      else
        (case get_resource_by_name_or_id_from_ctx ctx name_field_name openstack_type client of
           Inl e \<Rightarrow>
             if is_NonRecoverableError e then
               (if is_create_if_missing ctx
                then Inr (ctx\<lparr>runtime_properties :=
                            dict_set (runtime_properties ctx) CONDITIONALLY_CREATED (VBool True)\<rparr>, None)
                else Inl e)
             else Inl e
         | Inr None \<Rightarrow> Inl (AttributeError ''id'')
         | Inr (Some resource) \<Rightarrow>
             (case get_id_from_resource client resource of
                Inl e \<Rightarrow> Inl e
              | Inr rid \<Rightarrow>
                  (let rp1 = dict_set (runtime_properties ctx) OPENSTACK_ID_PROPERTY rid;
                       rp2 = dict_set rp1 OPENSTACK_TYPE_PROPERTY (VStr openstack_type);
                       rp3 = dict_set rp2 OPENSTACK_RESOURCE_PROPERTY (VDict resource)
                   in if openstack_type \<noteq> FLOATINGIP_OPENSTACK_TYPE K then
                        (case get_name_from_resource client resource of
                           Inl e \<Rightarrow> Inl e
                         | Inr name \<Rightarrow>
                             Inr (ctx\<lparr>runtime_properties := dict_set rp3 OPENSTACK_NAME_PROPERTY name\<rparr>,
                                  Some resource))
                      else Inr (ctx\<lparr>runtime_properties := rp3\<rparr>, Some resource)))))"

text \<open>
  \<open>validate_resource\<close>. In the handler of a failed lookup without
  \<open>create_if_missing\<close> the existing resources are listed for the log (the listing and
  the reading of each id and name may raise) and the lookup's error is raised again.
\<close>

definition validate_resource ::
  "node_instance_ctx \<Rightarrow> sugared_client \<Rightarrow> string \<Rightarrow> string \<Rightarrow> exc + unit" where
  "validate_resource ctx client openstack_type name_field_name =
     (case (if is_external_resource ctx then
              (case get_resource_by_name_or_id_from_ctx ctx name_field_name openstack_type client of
                 Inl e \<Rightarrow>
                   if is_NonRecoverableError e then
                     (if \<not> is_create_if_missing ctx then
                        (case cosmo_list client openstack_type [] of
                           Inl e' \<Rightarrow> Inl e'
                         | Inr resource_list \<Rightarrow>
                             (case map_exc (\<lambda>r. case get_id_from_resource client r of
                                                   Inl e' \<Rightarrow> Inl e'
                                                 | Inr i \<Rightarrow> get_name_from_resource client r)
                                     resource_list of
                                Inl e' \<Rightarrow> Inl e'
                              | Inr names \<Rightarrow> Inl e))
                      else Inr None)
                   else Inl e
               | Inr resource \<Rightarrow> Inr resource)
            else Inr None) of
        Inl e \<Rightarrow> Inl e
      | Inr resource \<Rightarrow>
          if \<not> resource_truthy client resource then
            (if client_kind client = Nova then Inr ()
             else
               (case cosmo_list client openstack_type [] of
                  Inl e \<Rightarrow> Inl e
                | Inr resource_list \<Rightarrow>
                    (let resource_amount = int (length resource_list) in
                     case get_quota client openstack_type of
                       Inl e \<Rightarrow> Inl e
                     | Inr resource_quota \<Rightarrow>
                         if resource_amount < resource_quota \<or> resource_quota = INFINITE_RESOURCE_QUOTA
                         then Inr ()
                         else Inl (NonRecoverableError QUOTA_MESSAGE))))
          else Inr ())"

definition delete_runtime_properties :: "pydict \<Rightarrow> string list \<Rightarrow> pydict" where
  "delete_runtime_properties rp runtime_properties_keys = foldl dict_del rp runtime_properties_keys"

section \<open>Server operations (nova_plugin/server.py)\<close>

text \<open>
  The calls an operation makes to its collaborators, in the order it makes them: the
  compute client's server and volume commands, the helper functions of
  \<open>cinder_plugin.volume\<close>, the generic delete of a sugared client, and \<open>time.sleep\<close>.
  An operation takes the log of the calls made so far and returns the extended log.
  The operations are modelled as their bodies: the decorators \<open>with_nova_client\<close> and
  \<open>with_cinder_client\<close>, which turn an exception of a client library into a
  RecoverableError or a NonRecoverableError by its status code, act on what leaves the
  body and are not part of it.
\<close>

datatype call =
    ServersGet pyval
  | ServersDelete pyval
  | ServersStop pyval
  | ServersReboot pyval string
  | Sleep nat
  | CreateServerVolume pyval pyval pyval
  | DeleteServerVolume pyval pyval
  | WaitUntilStatus pyval string int int
  | GetAttachment pyval pyval
  | CosmoDeleteResource string pyval

text \<open>
  How an operation ends: it returns, it returns the value of
  \<open>ctx.operation.retry(message, retry_after)\<close>, or an exception leaves it.
\<close>

datatype outcome = Returned | Retry string int | Raised exc

text \<open>
  The compute client. The provider is outside the repository and changes state on its
  own, so each answer is a function of the calls made so far and of the arguments; a
  command answers \<open>None\<close> when it succeeds and \<open>Some e\<close> when it raises \<open>e\<close>.
\<close>

record nova_client =
  servers_get :: "call list \<Rightarrow> pyval \<Rightarrow> exc + pydict"
  servers_delete :: "call list \<Rightarrow> pyval \<Rightarrow> exc option"
  servers_stop :: "call list \<Rightarrow> pyval \<Rightarrow> exc option"
  servers_reboot :: "call list \<Rightarrow> pyval \<Rightarrow> string \<Rightarrow> exc option"
  create_server_volume :: "call list \<Rightarrow> pyval \<Rightarrow> pyval \<Rightarrow> pyval \<Rightarrow> exc option"
  delete_server_volume :: "call list \<Rightarrow> pyval \<Rightarrow> pyval \<Rightarrow> exc option"
  cosmo_delete_resource :: "call list \<Rightarrow> string \<Rightarrow> pyval \<Rightarrow> exc option"

text \<open>
  The functions of \<open>cinder_plugin.volume\<close> that \<open>attach_volume\<close> calls. The module is
  not among the sources, so what they answer is a parameter: \<open>get_attachment\<close> gives
  the attachment record of a volume on a server or \<open>None\<close>, \<open>wait_until_status\<close> gives
  the volume and whether it reached the status.
\<close>

record volume_module =
  get_attachment :: "call list \<Rightarrow> pyval \<Rightarrow> pyval \<Rightarrow> exc + pyval"
  wait_until_status :: "call list \<Rightarrow> pyval \<Rightarrow> string \<Rightarrow> int \<Rightarrow> int \<Rightarrow> exc + (pyval \<times> bool)"

definition SERVER_OPENSTACK_TYPE :: string where "SERVER_OPENSTACK_TYPE = ''server''"
definition SERVER_STATUS_ACTIVE :: string where "SERVER_STATUS_ACTIVE = ''ACTIVE''"
definition SERVER_STATUS_SHUTOFF :: string where "SERVER_STATUS_SHUTOFF = ''SHUTOFF''"
definition SERVER_STATUS_ERROR :: string where "SERVER_STATUS_ERROR = ''ERROR''"
definition SERVER_STATUS_REBOOT :: string where "SERVER_STATUS_REBOOT = ''REBOOT''"
definition SERVER_STATUS_HARD_REBOOT :: string where "SERVER_STATUS_HARD_REBOOT = ''HARD_REBOOT''"
definition SERVER_STATUS_UNKNOWN :: string where "SERVER_STATUS_UNKNOWN = ''UNKNOWN''"
definition OS_EXT_STS_TASK_STATE :: string where "OS_EXT_STS_TASK_STATE = ''OS-EXT-STS:task_state''"
definition SERVER_TASK_STATE_POWERING_OFF :: string where "SERVER_TASK_STATE_POWERING_OFF = ''powering-off''"

definition RUNTIME_PROPERTIES_KEYS :: "string list" where
  "RUNTIME_PROPERTIES_KEYS = COMMON_RUNTIME_PROPERTIES_KEYS @ [''networks'', ''ip'', ''password'']"

text \<open>\<open>get_openstack_id\<close> and \<open>get_server_by_context\<close>.\<close>

definition get_openstack_id :: "node_instance_ctx \<Rightarrow> exc + pyval" where
  "get_openstack_id ctx = dict_item (runtime_properties ctx) OPENSTACK_ID_PROPERTY"

definition get_server_by_context ::
  "nova_client \<Rightarrow> call list \<Rightarrow> node_instance_ctx \<Rightarrow> call list \<times> (exc + pydict)" where
  "get_server_by_context nova log ctx =
     (case get_openstack_id ctx of
        Inl e \<Rightarrow> (log, Inl e)
      | Inr server_id \<Rightarrow> (log @ [ServersGet server_id], servers_get nova log server_id))"

subsection \<open>stop\<close>

definition server_stop :: "nova_client \<Rightarrow> call list \<Rightarrow> pydict \<Rightarrow> call list \<times> outcome" where
  "server_stop nova log server =
     (case getattr server OS_EXT_STS_TASK_STATE of
        Inl e \<Rightarrow> (log, Raised e)
      | Inr server_task_state \<Rightarrow>
          if server_task_state = VStr SERVER_TASK_STATE_POWERING_OFF
          then (log, Retry ''Server is stopping'' 30)
          else
            (case getattr server ''status'' of
               Inl e \<Rightarrow> (log, Raised e)
             | Inr status \<Rightarrow>
                 if status \<noteq> VStr SERVER_STATUS_SHUTOFF then
                   (case servers_stop nova log (VDict server) of
                      Some e \<Rightarrow> (log @ [ServersStop (VDict server)], Raised e)
                    | None \<Rightarrow>
                        (let log1 = log @ [ServersStop (VDict server), Sleep 10] in
                         case getattr server ''id'' of
                           Inl e \<Rightarrow> (log1, Raised e)
                         | Inr server_id \<Rightarrow>
                             (case servers_get nova log1 server_id of
                                Inl e \<Rightarrow> (log1 @ [ServersGet server_id], Raised e)
                              | Inr server' \<Rightarrow>
                                  (case getattr server' ''status'' of
                                     Inl e \<Rightarrow> (log1 @ [ServersGet server_id], Raised e)
                                   | Inr status' \<Rightarrow>
                                       if status' \<noteq> VStr SERVER_STATUS_SHUTOFF
                                       then (log1 @ [ServersGet server_id],
                                             Retry ''Server has {} state.'' 30)
                                       else (log1 @ [ServersGet server_id], Returned)))))
                 else (log, Returned)))"

definition stop :: "nova_client \<Rightarrow> call list \<Rightarrow> node_instance_ctx \<Rightarrow> call list \<times> outcome" where
  "stop nova log ctx =
     (if is_external_resource ctx then (log, Returned)
      else
        (case get_server_by_context nova log ctx of
           (log1, Inl e) \<Rightarrow> (log1, Raised e)
         | (log1, Inr server) \<Rightarrow> server_stop nova log1 server))"

subsection \<open>reboot\<close>

text \<open>\<open>str.upper\<close> on the ASCII letters.\<close>

definition upper_char :: "char \<Rightarrow> char" where
  "upper_char c =
     (case map_of (zip ''abcdefghijklmnopqrstuvwxyz'' ''ABCDEFGHIJKLMNOPQRSTUVWXYZ'') c of
        None \<Rightarrow> c
      | Some u \<Rightarrow> u)"

definition upper :: "string \<Rightarrow> string" where
  "upper s = map upper_char s"

definition reboot ::
  "nova_client \<Rightarrow> call list \<Rightarrow> node_instance_ctx \<Rightarrow> string \<Rightarrow> call list \<times> outcome" where
  "reboot nova log ctx reboot_type =
     (case get_server_by_context nova log ctx of
        (log1, Inl e) \<Rightarrow> (log1, Raised e)
      | (log1, Inr server) \<Rightarrow>
          (case (if retry_number ctx = 0 then
                   (if upper reboot_type \<notin> set [''HARD'', ''SOFT'']
                    then (log1, Some (NonRecoverableError
                            ''Unexpected reboot type: {}. Valid values: SOFT or HARD.''))
                    else (log1 @ [ServersReboot (VDict server) (upper reboot_type)],
                          servers_reboot nova log1 (VDict server) (upper reboot_type)))
                 else (log1, None)) of
             (log2, Some e) \<Rightarrow> (log2, Raised e)
           | (log2, None) \<Rightarrow>
               (case getattr server ''id'' of
                  Inl e \<Rightarrow> (log2, Raised e)
                | Inr server_id \<Rightarrow>
                    (case servers_get nova log2 server_id of
                       Inl e \<Rightarrow> (log2 @ [ServersGet server_id], Raised e)
                     | Inr server' \<Rightarrow>
                         (let log3 = log2 @ [ServersGet server_id] in
                          case getattr server' ''status'' of
                            Inl e \<Rightarrow> (log3, Raised e)
                          | Inr status \<Rightarrow>
                              if status \<in> set [VStr SERVER_STATUS_REBOOT, VStr SERVER_STATUS_HARD_REBOOT,
                                               VStr SERVER_STATUS_UNKNOWN]
                              then (log3, Retry ''Server has {0} state. Waiting.'' 30)
                              else if status = VStr SERVER_STATUS_ACTIVE then (log3, Returned)
                              else if status = VStr SERVER_STATUS_ERROR
                              then (log3, Raised (NonRecoverableError
                                      ''Reboot operation finished in {} state.''))
                              else
                                (case getattr server' ''state'' of
                                   Inl e \<Rightarrow> (log3, Raised e)
                                 | Inr state \<Rightarrow>
                                     (log3, Raised (NonRecoverableError
                                        ''Reboot operation finished in unexpected state: {}''))))))))"

subsection \<open>delete\<close>

text \<open>
  \<open>_wait_for_server_to_be_deleted\<close>, as \<open>delete\<close> calls it: with the defaults
  \<open>timeout=120\<close> and \<open>sleep_interval=5\<close>. The clock is the seconds slept so far, so
  the loop is bounded; \<open>NotFound\<close> (status code 404) ends it, any other exception
  leaves it, and when the time is up a RuntimeError is raised.
\<close>

fun is_NotFound :: "exc \<Rightarrow> bool" where
  "is_NotFound (ClientException code msg) = (code = 404)"
| "is_NotFound e = False"

function wait_for_server_to_be_deleted ::
  "nova_client \<Rightarrow> call list \<Rightarrow> pyval \<Rightarrow> nat \<Rightarrow> call list \<times> exc option" where
  "wait_for_server_to_be_deleted nova log server_id elapsed =
     (if elapsed < 120 then
        (case servers_get nova log server_id of
           Inl e \<Rightarrow> (log @ [ServersGet server_id], if is_NotFound e then None else Some e)
         | Inr server \<Rightarrow>
             (case getattr server ''id'' of
                Inl e \<Rightarrow> (log @ [ServersGet server_id], Some e)
              | Inr i \<Rightarrow>
                  (case getattr server ''status'' of
                     Inl e \<Rightarrow> (log @ [ServersGet server_id], Some e)
                   | Inr s \<Rightarrow>
                       wait_for_server_to_be_deleted nova
                         (log @ [ServersGet server_id, Sleep 5]) server_id (elapsed + 5))))
      else (log, Some (RuntimeError ''Server {} has not been deleted. waited for {} seconds'')))"
  by pat_completeness auto
termination
  by (relation "measure (\<lambda>(nova, log, server_id, elapsed). 120 - elapsed)") auto

declare wait_for_server_to_be_deleted.simps [simp del]

text \<open>
  \<open>delete\<close> of a server: the log, the context with its runtime properties as the
  operation leaves them, and how the operation ends.
\<close>

definition delete ::
  "nova_client \<Rightarrow> call list \<Rightarrow> node_instance_ctx \<Rightarrow> call list \<times> node_instance_ctx \<times> outcome" where
  "delete nova log ctx =
     (case (if \<not> is_external_resource ctx then
              (case get_server_by_context nova log ctx of
                 (log1, Inl e) \<Rightarrow> (log1, Some e)
               | (log1, Inr server) \<Rightarrow>
                   (case servers_delete nova log1 (VDict server) of
                      Some e \<Rightarrow> (log1 @ [ServersDelete (VDict server)], Some e)
                    | None \<Rightarrow>
                        wait_for_server_to_be_deleted nova
                          (log1 @ [ServersDelete (VDict server)]) (VDict server) 0))
            else (log, None)) of
        (log', Some e) \<Rightarrow> (log', ctx, Raised e)
      | (log', None) \<Rightarrow>
          (log',
           ctx\<lparr>runtime_properties :=
                 delete_runtime_properties (runtime_properties ctx) RUNTIME_PROPERTIES_KEYS\<rparr>,
           Returned))"

text \<open>
  \<open>delete_resource_and_runtime_properties\<close> of openstack_plugin_common, the delete
  the other resource types share.
\<close>

definition delete_resource_and_runtime_properties ::
  "nova_client \<Rightarrow> call list \<Rightarrow> node_instance_ctx \<Rightarrow> string list
   \<Rightarrow> call list \<times> node_instance_ctx \<times> outcome" where
  "delete_resource_and_runtime_properties client log ctx runtime_properties_keys =
     (case dict_item (runtime_properties ctx) OPENSTACK_TYPE_PROPERTY of
        Inl e \<Rightarrow> (log, ctx, Raised e)
      | Inr (VStr node_openstack_type) \<Rightarrow>
          (case (if \<not> is_external_resource_not_conditionally_created ctx then
                   (case dict_item (runtime_properties ctx) OPENSTACK_ID_PROPERTY of
                      Inl e \<Rightarrow> (log, Some e)
                    | Inr openstack_id \<Rightarrow>
                        (log @ [CosmoDeleteResource node_openstack_type openstack_id],
                         cosmo_delete_resource client log node_openstack_type openstack_id))
                 else (log, None)) of
             (log', Some e) \<Rightarrow> (log', ctx, Raised e)
           | (log', None) \<Rightarrow>
               (log',
                ctx\<lparr>runtime_properties :=
                      delete_runtime_properties (runtime_properties ctx) runtime_properties_keys\<rparr>,
                Returned))
      | Inr other \<Rightarrow> (log, ctx, Raised (TypeError ''the openstack type is expected to be a string'')))"

subsection \<open>attach_volume\<close>

text \<open>The context of a relationship operation: \<open>ctx.source\<close> and \<open>ctx.target\<close>.\<close>

record relationship_ctx =
  source :: node_instance_ctx
  target :: node_instance_ctx

definition is_external_relationship_not_conditionally_created :: "relationship_ctx \<Rightarrow> bool" where
  "is_external_relationship_not_conditionally_created ctx =
     (is_external_resource_by_properties (properties (source ctx)) \<and>
      is_external_resource_by_properties (properties (target ctx)) \<and>
      \<not> truthy (dict_get (runtime_properties (source ctx)) CONDITIONALLY_CREATED) \<and>
      \<not> truthy (dict_get (runtime_properties (target ctx)) CONDITIONALLY_CREATED))"

text \<open>
  \<open>_detach_volume\<close>: look the attachment up; when there is one, delete it on the
  server and wait for the volume to be available (the result of the wait is not
  read).
\<close>

definition detach_volume_impl ::
  "plugin_constants \<Rightarrow> nova_client \<Rightarrow> volume_module \<Rightarrow> call list \<Rightarrow> pyval \<Rightarrow> pyval \<Rightarrow> int \<Rightarrow> int
   \<Rightarrow> call list \<times> exc option" where
  "detach_volume_impl K nova vol log server_id volume_id status_attempts status_timeout =
     (let log1 = log @ [GetAttachment volume_id server_id] in
      case get_attachment vol log volume_id server_id of
        Inl e \<Rightarrow> (log1, Some e)
      | Inr attachment \<Rightarrow>
          if truthy attachment then
            (case py_subscript attachment ''id'' of
               Inl e \<Rightarrow> (log1, Some e)
             | Inr attachment_id \<Rightarrow>
                 (let log2 = log1 @ [DeleteServerVolume server_id attachment_id] in
                  case delete_server_volume nova log1 server_id attachment_id of
                    Some e \<Rightarrow> (log2, Some e)
                  | None \<Rightarrow>
                      (let log3 = log2 @ [WaitUntilStatus volume_id (VOLUME_STATUS_AVAILABLE K)
                                            status_attempts status_timeout] in
                       case wait_until_status vol log2 volume_id (VOLUME_STATUS_AVAILABLE K)
                              status_attempts status_timeout of
                         Inl e \<Rightarrow> (log3, Some e)
                       | Inr r \<Rightarrow> (log3, None))))
          else (log1, None))"

text \<open>
  \<open>_prepare_attach_volume_to_be_repeated\<close>: any exception \<open>e\<close> of the detach is
  raised again as \<open>NonRecoverableError(e)\<close>.
\<close>

definition prepare_attach_volume_to_be_repeated ::
  "plugin_constants \<Rightarrow> nova_client \<Rightarrow> volume_module \<Rightarrow> call list \<Rightarrow> pyval \<Rightarrow> pyval \<Rightarrow> int \<Rightarrow> int
   \<Rightarrow> call list \<times> exc option" where
  "prepare_attach_volume_to_be_repeated K nova vol log server_id volume_id status_attempts status_timeout =
     (case detach_volume_impl K nova vol log server_id volume_id status_attempts status_timeout of
        (log', Some e) \<Rightarrow> (log', Some (NonRecoverableErrorOf e))
      | (log', None) \<Rightarrow> (log', None))"

text \<open>
  The body of the \<open>try\<close> of \<open>attach_volume\<close>: the wait for \<open>IN_USE\<close> and, for the
  device \<open>auto\<close>, the query of the device name, stored in the runtime properties of
  the volume (the source of the relationship).
\<close>

definition attach_volume_try ::
  "plugin_constants \<Rightarrow> volume_module \<Rightarrow> call list \<Rightarrow> relationship_ctx \<Rightarrow> pyval \<Rightarrow> pyval \<Rightarrow> pyval
   \<Rightarrow> int \<Rightarrow> int \<Rightarrow> call list \<times> relationship_ctx \<times> exc option" where
  "attach_volume_try K vol log ctx server_id volume_id device status_attempts status_timeout =
     (let log1 = log @ [WaitUntilStatus volume_id (VOLUME_STATUS_IN_USE K)
                          status_attempts status_timeout] in
      case wait_until_status vol log volume_id (VOLUME_STATUS_IN_USE K)
             status_attempts status_timeout of
        Inl e \<Rightarrow> (log1, ctx, Some e)
      | Inr (v, wait_succeeded) \<Rightarrow>
          if \<not> wait_succeeded
          then (log1, ctx, Some (RecoverableError
                  ''Waiting for volume status {0} failed - detaching volume and retrying..''))
          else if device = VStr ''auto'' then
            (let log2 = log1 @ [GetAttachment volume_id server_id] in
             case get_attachment vol log1 volume_id server_id of
               Inl e \<Rightarrow> (log2, ctx, Some e)
             | Inr attachment \<Rightarrow>
                 (case py_subscript attachment ''device'' of
                    Inl e \<Rightarrow> (log2, ctx, Some e)
                  | Inr device_name \<Rightarrow>
                      (log2,
                       ctx\<lparr>source := (source ctx)\<lparr>runtime_properties :=
                              dict_set (runtime_properties (source ctx)) (DEVICE_NAME_PROPERTY K)
                                device_name\<rparr>\<rparr>,
                       None)))
          else (log1, ctx, None))"

definition attach_volume ::
  "plugin_constants \<Rightarrow> nova_client \<Rightarrow> volume_module \<Rightarrow> call list \<Rightarrow> relationship_ctx \<Rightarrow> int \<Rightarrow> int
   \<Rightarrow> call list \<times> relationship_ctx \<times> outcome" where
  "attach_volume K nova vol log ctx status_attempts status_timeout =
     (case get_openstack_id (target ctx) of
        Inl e \<Rightarrow> (log, ctx, Raised e)
      | Inr server_id \<Rightarrow>
     (case get_openstack_id (source ctx) of
        Inl e \<Rightarrow> (log, ctx, Raised e)
      | Inr volume_id \<Rightarrow>
          if is_external_relationship_not_conditionally_created ctx then
            (case get_attachment vol log volume_id server_id of
               Inl e \<Rightarrow> (log @ [GetAttachment volume_id server_id], ctx, Raised e)
             | Inr attachment \<Rightarrow>
                 if truthy attachment
                 then (log @ [GetAttachment volume_id server_id], ctx, Returned)
                 else (log @ [GetAttachment volume_id server_id], ctx,
                       Raised (NonRecoverableError
                         ''Expected external resources server {0} and volume {1} to be connected'')))
          else
            (case dict_item (properties (source ctx)) (DEVICE_NAME_PROPERTY K) of
               Inl e \<Rightarrow> (log, ctx, Raised e)
             | Inr device \<Rightarrow>
                 (let requested = (if device \<noteq> VStr ''auto'' then device else VNone);
                      log1 = log @ [CreateServerVolume server_id volume_id requested] in
                  case create_server_volume nova log server_id volume_id requested of
                    Some e \<Rightarrow> (log1, ctx, Raised e)
                  | None \<Rightarrow>
                      (case attach_volume_try K vol log1 ctx server_id volume_id device
                              status_attempts status_timeout of
                         (log2, ctx', None) \<Rightarrow> (log2, ctx', Returned)
                       | (log2, ctx', Some e) \<Rightarrow>
                           if \<not> is_NonRecoverableError e then
                             (case prepare_attach_volume_to_be_repeated K nova vol log2
                                     server_id volume_id status_attempts status_timeout of
                                (log3, Some e') \<Rightarrow> (log3, ctx', Raised e')
                              | (log3, None) \<Rightarrow> (log3, ctx', Raised e))
                           else (log2, ctx', Raised e))))))"

subsection \<open>create: the boot volume\<close>

text \<open>
  \<open>str\<close> of a value, as \<open>'{0}'.format(v)\<close> renders it. The \<open>repr\<close> of a list or of a
  dictionary is not modelled: it is rendered as a fixed placeholder.
\<close>

definition digit_char :: "nat \<Rightarrow> char" where
  "digit_char d = ''0123456789'' ! d"

fun decimal :: "nat \<Rightarrow> string" where
  "decimal n = (if 10 \<le> n then decimal (n div 10) @ [digit_char (n mod 10)] else [digit_char n])"

declare decimal.simps [simp del]

fun py_str :: "pyval \<Rightarrow> string" where
  "py_str VNone = ''None''"
| "py_str (VBool b) = (if b then ''True'' else ''False'')"
| "py_str (VInt i) = (if 0 \<le> i then decimal (nat i) else CHR ''-'' # decimal (nat (- i)))"
| "py_str (VStr s) = s"
| "py_str (VList xs) = ''[...]''"
| "py_str (VDict d) = ''{...}''"

text \<open>
  The list comprehension of \<open>_get_boot_volume_relationships\<close>: the runtime properties
  of the relationship targets of the given type whose \<open>bootable\<close> property is truthy.
\<close>

definition boot_volume_targets :: "plugin_constants \<Rightarrow> string \<Rightarrow> node_instance_ctx \<Rightarrow> pydict list" where
  "boot_volume_targets K type_name ctx =
     filter (\<lambda>rp. dict_get rp OPENSTACK_TYPE_PROPERTY = VStr type_name \<and>
                   truthy (dict_get_default rp (VOLUME_BOOTABLE K) (VBool False)))
       (relationships ctx)"

definition get_boot_volume_relationships ::
  "plugin_constants \<Rightarrow> string \<Rightarrow> node_instance_ctx \<Rightarrow> exc + pydict option" where
  "get_boot_volume_relationships K type_name ctx =
     (case boot_volume_targets K type_name ctx of
        [] \<Rightarrow> Inr None
      | t # ts \<Rightarrow>
          if 1 < length (t # ts) then Inl (NonRecoverableError ''2 boot volumes not supported'')
          else Inr (Some t))"

text \<open>
  \<open>_handle_boot_volume\<close>. \<open>server.setdefault('block_device_mapping', {})\<close> gives the
  mapping there is or a new one; storing \<open>vda\<close> in a value that is not a dictionary
  is a TypeError.
\<close>

definition handle_boot_volume :: "plugin_constants \<Rightarrow> pydict \<Rightarrow> node_instance_ctx \<Rightarrow> exc + pydict" where
  "handle_boot_volume K server ctx =
     (case get_boot_volume_relationships K (VOLUME_OPENSTACK_TYPE K) ctx of
        Inl e \<Rightarrow> Inl e
      | Inr None \<Rightarrow> Inr server
      | Inr (Some boot_volume) \<Rightarrow>
          (case dict_item boot_volume OPENSTACK_ID_PROPERTY of
             Inl e \<Rightarrow> Inl e
           | Inr boot_volume_id \<Rightarrow>
               (case (case map_of server ''block_device_mapping'' of
                        None \<Rightarrow> Inr []
                      | Some (VDict bdm) \<Rightarrow> Inr bdm
                      | Some other \<Rightarrow> Inl (TypeError ''object does not support item assignment'')) of
                  Inl e \<Rightarrow> Inl e
                | Inr bdm \<Rightarrow>
                    (let server1 = dict_set server ''block_device_mapping''
                           (VDict (dict_set bdm ''vda'' (VStr (py_str boot_volume_id @ '':::0''))))
                     in if \<not> truthy (dict_get server1 ''availability_zone'') then
                          (case dict_item boot_volume OPENSTACK_AZ_PROPERTY of
                             Inl e \<Rightarrow> Inl e
                           | Inr az \<Rightarrow> Inr (dict_set server1 ''availability_zone'' az))
                        else Inr server1))))"

text \<open>\<open>get_resource_id\<close> and \<open>dict.update\<close>.\<close>

definition get_resource_id :: "node_instance_ctx \<Rightarrow> string \<Rightarrow> exc + pyval" where
  "get_resource_id ctx type_name =
     (case dict_item (properties ctx) ''resource_id'' of
        Inl e \<Rightarrow> Inl e
      | Inr resource_id \<Rightarrow>
          if truthy resource_id then Inr resource_id
          else Inr (VStr (type_name @ ''_'' @ deployment_id ctx @ ''_'' @ instance_id ctx)))"

definition dict_update :: "pydict \<Rightarrow> pydict \<Rightarrow> pydict" where
  "dict_update d other = foldl (\<lambda>acc kv. dict_set acc (fst kv) (snd kv)) d other"

text \<open>
  \<open>create\<close>, up to the boot volume. The operation first resolves the node as an
  external resource. When an existing server is found, the branch of lines 263 to
  278 runs (NIC, network and keypair validation of the existing server) and the
  operation returns; that branch is the parameter \<open>external_server_branch\<close>.
  Otherwise the \<open>server\<close> dictionary is built from the resource id, the \<open>server\<close>
  property and the operation's \<open>args\<close>, and \<open>_handle_boot_volume\<close> runs on it; the
  rest of the operation (lines 292 to 389: image, flavor, security groups, keypair,
  NICs, user data and the provider's \<open>servers.create\<close> call) is the parameter
  \<open>managed_rest\<close>, applied to the context and the dictionary as they are then.
\<close>

definition create_managed ::
  "plugin_constants \<Rightarrow> node_instance_ctx \<Rightarrow> pydict \<Rightarrow> (node_instance_ctx \<Rightarrow> pydict \<Rightarrow> 'r) \<Rightarrow> exc + 'r" where
  "create_managed K ctx args managed_rest =
     (case get_resource_id ctx SERVER_OPENSTACK_TYPE of
        Inl e \<Rightarrow> Inl e
      | Inr name \<Rightarrow>
          (case dict_item (properties ctx) ''server'' of
             Inl e \<Rightarrow> Inl e
           | Inr server_property \<Rightarrow>
               (case as_dict server_property of
                  Inl e \<Rightarrow> Inl e
                | Inr server_dict \<Rightarrow>
                    (case handle_boot_volume K
                            (dict_update (dict_update [(''name'', name)] server_dict) args) ctx of
                       Inl e \<Rightarrow> Inl e
                     | Inr server \<Rightarrow> Inr (managed_rest ctx server)))))"

definition create ::
  "plugin_constants \<Rightarrow> sugared_client \<Rightarrow> node_instance_ctx \<Rightarrow> pydict
   \<Rightarrow> (node_instance_ctx \<Rightarrow> pydict \<Rightarrow> 'r) \<Rightarrow> (node_instance_ctx \<Rightarrow> pydict \<Rightarrow> 'r) \<Rightarrow> exc + 'r" where
  "create K nova_client ctx args external_server_branch managed_rest =
     (case use_external_resource K ctx nova_client SERVER_OPENSTACK_TYPE ''name'' of
        Inl e \<Rightarrow> Inl e
      | Inr (ctx1, None) \<Rightarrow> create_managed K ctx1 args managed_rest
      | Inr (ctx1, Some external_server) \<Rightarrow>
          if resource_truthy nova_client (Some external_server)
          then Inr (external_server_branch ctx1 external_server)
          else create_managed K ctx1 args managed_rest)"

section \<open>Example inputs\<close>

definition K0 :: plugin_constants where
  "K0 = \<lparr>NETWORK_OPENSTACK_TYPE = ''network'', PORT_OPENSTACK_TYPE = ''port'',
          VOLUME_OPENSTACK_TYPE = ''volume'', VOLUME_BOOTABLE = ''bootable'',
          DEVICE_NAME_PROPERTY = ''device_name'', VOLUME_STATUS_IN_USE = ''in-use'',
          VOLUME_STATUS_AVAILABLE = ''available'', FLOATINGIP_OPENSTACK_TYPE = ''floatingip''\<rparr>"

text \<open>The runtime properties of a relationship target of a given type and id.\<close>

definition rel_target :: "string \<Rightarrow> string \<Rightarrow> pydict" where
  "rel_target openstack_type openstack_id =
     [(''external_id'', VStr openstack_id), (''external_type'', VStr openstack_type)]"

text \<open>A context with the given properties, runtime properties and relationship targets.\<close>

definition ctx_of :: "pydict \<Rightarrow> pydict \<Rightarrow> pydict list \<Rightarrow> node_instance_ctx" where
  "ctx_of props rp rels =
     \<lparr>properties = props, runtime_properties = rp, relationships = rels,
      resources_prefix = [], provider_resources = [],
      deployment_id = ''dep'', instance_id = ''server_1'', retry_number = 0\<rparr>"

text \<open>
  A sugared client of the given class with the given existing resources (listed when no
  filter is given; a lookup by name or by id finds nothing) and the given quota; every
  port belongs to the network \<open>net-D\<close>.
\<close>

definition client_of :: "client_kind \<Rightarrow> pydict list \<Rightarrow> int \<Rightarrow> sugared_client" where
  "client_of kind existing quota =
     \<lparr>client_kind = kind,
      cosmo_list = (\<lambda>obj_type kw. Inr (if kw = [] then existing else [])),
      provider_quota = (\<lambda>obj_type. Inr quota),
      show_port = (\<lambda>port_id. Inr (VDict [(''port'',
                     VDict [(''id'', port_id), (''network_id'', VStr ''net-D'')])]))\<rparr>"

text \<open>
  The ordering example: inline NIC on \<open>net-A\<close>, network relationships to \<open>net-B\<close> and
  \<open>net-C\<close>, a port relationship to \<open>port-P\<close> (on \<open>net-D\<close>), management network \<open>net-E\<close>
  from the provider context.
\<close>

definition ctx_ordering :: node_instance_ctx where
  "ctx_ordering =
     (ctx_of [(''resource_id'', VStr [])] []
        [rel_target ''network'' ''net-B'', rel_target ''network'' ''net-C'',
         rel_target ''port'' ''port-P''])
     \<lparr>provider_resources :=
        [(''int_network'', VDict [(''id'', VStr ''net-E''), (''name'', VStr ''mgmt'')])]\<rparr>"

definition server_ordering :: pydict where
  "server_ordering = [(''nics'', VList [VDict [(''net-id'', VStr ''net-A'')]]), (''meta'', VDict [])]"

text \<open>
  Two relationships to the network \<open>net-D\<close> (say a \<open>connected_to\<close> and a
  \<open>depends_on\<close> to the same network node) and one to a port of that network.
\<close>

definition ctx_duplicate :: node_instance_ctx where
  "ctx_duplicate =
     ctx_of [(''resource_id'', VStr [])] []
       [rel_target ''network'' ''net-D'', rel_target ''network'' ''net-D'',
        rel_target ''port'' ''port-P'']"

text \<open>
  A node declared external with \<open>create_if_missing\<close> that no lookup finds, and the same
  node after \<open>create\<close> went on to create the server: the flag \<open>conditionally_created\<close>
  and the identity of the new server are in its runtime properties.
\<close>

definition props_create_if_missing :: pydict where
  "props_create_if_missing =
     [(''use_external_resource'', VBool True), (''create_if_missing'', VBool True),
      (''resource_id'', VStr ''my-server''), (''server'', VDict [])]"

definition ctx_missing :: node_instance_ctx where
  "ctx_missing = ctx_of props_create_if_missing [] []"

definition ctx_conditionally_created :: node_instance_ctx where
  "ctx_conditionally_created =
     ctx_of props_create_if_missing
       [(''conditionally_created'', VBool True), (''external_id'', VStr ''srv-1''),
        (''external_type'', VStr ''server''), (''external_name'', VStr ''my-server'')] []"

text \<open>A managed node (no \<open>use_external_resource\<close>) with a server already created.\<close>

definition ctx_managed :: node_instance_ctx where
  "ctx_managed =
     ctx_of [(''resource_id'', VStr []), (''server'', VDict [])]
       [(''external_id'', VStr ''srv-1''), (''external_type'', VStr ''server''),
        (''external_name'', VStr ''server_dep_server_1'')] []"

text \<open>
  A compute client every command of which succeeds; what \<open>servers.get\<close> answers is a
  function of the calls made before it.
\<close>

definition nova_of :: "(call list \<Rightarrow> pydict) \<Rightarrow> nova_client" where
  "nova_of server_after =
     \<lparr>servers_get = (\<lambda>log server_id. Inr (server_after log)),
      servers_delete = (\<lambda>log server. None),
      servers_stop = (\<lambda>log server. None),
      servers_reboot = (\<lambda>log server reboot_type. None),
      create_server_volume = (\<lambda>log server_id volume_id device. None),
      delete_server_volume = (\<lambda>log server_id attachment_id. None),
      cosmo_delete_resource = (\<lambda>log obj_type obj_id. None)\<rparr>"

definition server_object :: "string \<Rightarrow> pyval \<Rightarrow> pydict" where
  "server_object status task_state =
     [(''id'', VStr ''srv-1''), (''name'', VStr ''my-server''), (''status'', VStr status),
      (''OS-EXT-STS:task_state'', task_state)]"

text \<open>
  The helpers of \<open>cinder_plugin.volume\<close> for the attach examples: the wait for
  \<open>in-use\<close> answers \<open>in_use\<close>, the wait for any other status succeeds, and the
  attachment lookup answers \<open>attachment\<close>.
\<close>

definition volume_module_of :: "exc + (pyval \<times> bool) \<Rightarrow> exc + pyval \<Rightarrow> volume_module" where
  "volume_module_of in_use attachment =
     \<lparr>get_attachment = (\<lambda>log volume_id server_id. attachment),
      wait_until_status = (\<lambda>log volume_id status num_tries timeout.
         if status = ''in-use'' then in_use else Inr (VNone, True))\<rparr>"

definition ctx_attach :: relationship_ctx where
  "ctx_attach =
     \<lparr>source = ctx_of [(''device_name'', VStr ''auto'')] [(''external_id'', VStr ''vol-1'')] [],
      target = ctx_of [] [(''external_id'', VStr ''srv-1'')] []\<rparr>"

text \<open>The runtime properties of a bootable volume that a server is related to.\<close>

definition boot_volume :: "string \<Rightarrow> pydict" where
  "boot_volume volume_id =
     [(''external_id'', VStr volume_id), (''external_type'', VStr ''volume''),
      (''bootable'', VBool True), (''availability_zone'', VStr ''az-1'')]"

text \<open>
  Servers with bootable volumes: a managed server related to one bootable volume (and
  to a network), a managed server related to two, and a node declared external,
  related to two bootable volumes, whose server exists at the provider.
\<close>

definition ctx_one_boot :: node_instance_ctx where
  "ctx_one_boot =
     ctx_of [(''resource_id'', VStr []), (''server'', VDict [(''flavor'', VStr ''m1.small'')])] []
       [rel_target ''network'' ''net-B'', boot_volume ''vol-1'']"

definition ctx_two_boot :: node_instance_ctx where
  "ctx_two_boot =
     ctx_of [(''resource_id'', VStr []), (''server'', VDict [(''flavor'', VStr ''m1.small'')])] []
       [boot_volume ''vol-1'', boot_volume ''vol-2'']"

definition ctx_external_two_boot :: node_instance_ctx where
  "ctx_external_two_boot =
     ctx_of [(''use_external_resource'', VBool True), (''resource_id'', VStr ''my-server''),
             (''server'', VDict [])] []
       [boot_volume ''vol-1'', boot_volume ''vol-2'']"

definition client_with_server :: sugared_client where
  "client_with_server =
     (client_of Nova [] 0)
       \<lparr>cosmo_list := (\<lambda>obj_type kw.
          Inr (if obj_type = ''server'' \<and> kw = [(''name'', VStr ''my-server'')]
               then [server_object ''ACTIVE'' VNone] else []))\<rparr>"

section \<open>Properties of the dictionary operations\<close>

lemma map_of_dict_del: "map_of (dict_del d k) k' = (if k' = k then None else map_of d k')"
  by (induction d) (auto simp: dict_del_def)

lemma has_key_dict_del: "has_key (dict_del d k) k' = (k' \<noteq> k \<and> has_key d k')"
  by (simp add: has_key_def map_of_dict_del)

lemma normalize_port_excludes_net:
  "has_key (normalize nic) ''port-id'' \<Longrightarrow> \<not> has_key (normalize nic) ''net-id''"
  by (auto simp: normalize_def has_key_dict_del split: if_splits)

section \<open>Normalization and composition of the NIC list\<close>

lemma map_of_dict_set: "map_of (dict_set d k v) k' = (if k' = k then Some v else map_of d k')"
proof (cases "has_key d k")
  case True
  have "map_of (map (\<lambda>kv. if fst kv = k then (k, v) else kv) d) k' =
        (if k' = k then (if has_key d k then Some v else None) else map_of d k')"
    by (induction d) (auto simp: has_key_def)
  with True show ?thesis by (simp add: dict_set_def)
next
  case False
  then show ?thesis by (auto simp: dict_set_def has_key_def map_add_def split: option.splits)
qed

text \<open>When no remaining id is contained in the port's network id, the loop removes nothing.\<close>

lemma remove_while_iterating_none:
  "list_all (\<lambda>x. py_in x net_id = Inr False) (drop i network_ids) \<Longrightarrow>
   remove_while_iterating net_id i network_ids = Inr network_ids"
proof (induction net_id i network_ids rule: remove_while_iterating.induct)
  case (1 net_id i network_ids)
  show ?case
  proof (cases "i < length network_ids")
    case True
    then have "drop i network_ids = network_ids ! i # drop (Suc i) network_ids"
      by (simp add: Cons_nth_drop_Suc)
    with "1.prems" have h: "py_in (network_ids ! i) net_id = Inr False"
      and t: "list_all (\<lambda>x. py_in x net_id = Inr False) (drop (Suc i) network_ids)"
      by simp_all
    from "1.IH"(2)[OF True h _ t]
    have "remove_while_iterating net_id (Suc i) network_ids = Inr network_ids"
      by simp
    with True h show ?thesis
      by (subst remove_while_iterating.simps) simp
  next
    case False
    then show ?thesis by (subst remove_while_iterating.simps) simp
  qed
qed

lemma any_net_id_iff:
  "any_net_id m merged = Inr b \<Longrightarrow> b = list_ex (\<lambda>nic. map_of nic ''net-id'' = Some m) merged"
  by (induction merged arbitrary: b) (auto simp: dict_item_def split: option.splits if_splits)

lemma merge_nics_rule:
  "merge_nics m srcs = Inr r \<Longrightarrow>
   r = (if m \<noteq> VNone \<and> \<not> list_ex (\<lambda>nic. map_of nic ''net-id'' = Some m) (concat srcs)
        then [(''net-id'', m)] # concat srcs else concat srcs)"
  by (auto simp: merge_nics_def Let_def split: if_splits sum.splits dest: any_net_id_iff)

lemma set_meta_other_key:
  "set_meta server key v = Inr server' \<Longrightarrow> key' \<noteq> ''meta'' \<Longrightarrow>
   map_of server' key' = map_of server key'"
  by (auto simp: set_meta_def dict_item_def map_of_dict_set split: option.splits pyval.splits)

lemma set_meta_ok:
  "map_of server ''meta'' = Some (VDict meta) \<Longrightarrow>
   set_meta server key v = Inr (dict_set server ''meta'' (VDict (dict_set meta key v)))"
  by (simp add: set_meta_def dict_item_def)

lemma prepare_server_nics_normalized:
  assumes "prepare_server_nics K neutron_client ctx server = Inr server'"
  shows "\<exists>nics. map_of server' ''nics'' = Some (VList (map VDict (normalize_nics nics)))"
proof -
  from assms obtain nics mid mname server2 where
    s2: "(if mid \<noteq> VNone
          then set_meta (dict_set server ''nics'' (VList (map VDict (normalize_nics nics))))
                 ''cloudify_management_network_id'' mid
          else Inr (dict_set server ''nics'' (VList (map VDict (normalize_nics nics))))) = Inr server2"
    and s3: "(if mname \<noteq> VNone
          then set_meta server2 ''cloudify_management_network_name'' mname
          else Inr server2) = Inr server'"
    by (auto simp: prepare_server_nics_def Let_def split: sum.splits prod.splits)
  have "map_of server2 ''nics'' = Some (VList (map VDict (normalize_nics nics)))"
    using s2 set_meta_other_key[of _ _ mid server2 "''nics''"]
    by (auto simp: map_of_dict_set split: if_splits)
  moreover have "map_of server' ''nics'' = map_of server2 ''nics''"
    using s3 set_meta_other_key[of server2 _ mname server' "''nics''"]
    by (auto split: if_splits)
  ultimately show ?thesis by auto
qed

text \<open>
  Claim C9. Every entry of the list \<open>_normalize_nics\<close> returns that carries a port id
  carries no network id: an input entry with both \<open>net-id\<close> and \<open>port-id\<close> comes back
  without its \<open>net-id\<close> (and with every other key as it was), an entry without both
  comes back unchanged, and the list keeps its length and order. The list that
  \<open>_prepare_server_nics\<close> stores in \<open>server['nics']\<close> is such a normalized list, so
  no entry of a composed list has both a port id and a network id.
\<close>

theorem normalize_nics_strips_net_id:
  "(\<forall>nic \<in> set (normalize_nics nics). has_key nic ''port-id'' \<longrightarrow> \<not> has_key nic ''net-id'')
   \<and> length (normalize_nics nics) = length nics
   \<and> (\<forall>i < length nics.
        normalize_nics nics ! i =
          (if has_key (nics ! i) ''port-id'' \<and> has_key (nics ! i) ''net-id''
           then dict_del (nics ! i) ''net-id'' else nics ! i))
   \<and> (\<forall>i < length nics. \<forall>k. k \<noteq> ''net-id'' \<longrightarrow>
        map_of (normalize_nics nics ! i) k = map_of (nics ! i) k)
   \<and> (\<forall>server'. prepare_server_nics K neutron_client ctx server = Inr server' \<longrightarrow>
        (\<exists>composed. map_of server' ''nics'' = Some (VList (map VDict composed)) \<and>
           (\<forall>nic \<in> set composed. has_key nic ''port-id'' \<longrightarrow> \<not> has_key nic ''net-id'')))"
proof (intro conjI allI impI ballI)
  fix nic
  assume "nic \<in> set (normalize_nics nics)" and "has_key nic ''port-id''"
  then show "\<not> has_key nic ''net-id''"
    using normalize_port_excludes_net by (auto simp: normalize_nics_def)
next
  show "length (normalize_nics nics) = length nics"
    by (simp add: normalize_nics_def)
next
  fix i assume "i < length nics"
  then show "normalize_nics nics ! i =
      (if has_key (nics ! i) ''port-id'' \<and> has_key (nics ! i) ''net-id''
       then dict_del (nics ! i) ''net-id'' else nics ! i)"
    by (simp add: normalize_nics_def normalize_def)
next
  fix i k assume "i < length nics" and "k \<noteq> ''net-id''"
  then show "map_of (normalize_nics nics ! i) k = map_of (nics ! i) k"
    by (simp add: normalize_nics_def normalize_def map_of_dict_del)
next
  fix server'
  assume "prepare_server_nics K neutron_client ctx server = Inr server'"
  then obtain merged where
    "map_of server' ''nics'' = Some (VList (map VDict (normalize_nics merged)))"
    using prepare_server_nics_normalized by blast
  moreover have "\<forall>nic \<in> set (normalize_nics merged).
      has_key nic ''port-id'' \<longrightarrow> \<not> has_key nic ''net-id''"
    using normalize_port_excludes_net by (auto simp: normalize_nics_def)
  ultimately show "\<exists>composed. map_of server' ''nics'' = Some (VList (map VDict composed)) \<and>
           (\<forall>nic \<in> set composed. has_key nic ''port-id'' \<longrightarrow> \<not> has_key nic ''net-id'')"
    by blast
qed

theorem normalize_nics_strips_net_id_witness:
  "normalize_nics
     [[(''net-id'', VStr ''D''), (''port-id'', VStr ''P'')], [(''net-id'', VStr ''A'')]]
   = [[(''port-id'', VStr ''P'')], [(''net-id'', VStr ''A'')]]
   \<and> \<not> has_key (normalize_nics
          [[(''net-id'', VStr ''D''), (''port-id'', VStr ''P'')], [(''net-id'', VStr ''A'')]] ! 0)
        ''net-id''"
  using normalize_nics_strips_net_id
    [of "[[(''net-id'', VStr ''D''), (''port-id'', VStr ''P'')], [(''net-id'', VStr ''A'')]]"]
  by (simp add: normalize_nics_def normalize_def has_key_def dict_del_def)

text \<open>
  Claim C4, as amended. With an inline NIC on network \<open>A\<close>, network relationship
  targets \<open>B\<close> and \<open>C\<close>, one port relationship target whose port \<open>P\<close> belongs to
  network \<open>D\<close>, and management network \<open>E\<close>, where \<open>E\<close> is none of \<open>A\<close>, \<open>B\<close>, \<open>C\<close>, \<open>D\<close>
  and neither \<open>B\<close> nor \<open>C\<close> occurs inside \<open>D\<close> (the overlap test of the code is
  substring containment), \<open>_prepare_server_nics\<close> stores the list
  \<open>[E, A, B, C, (port P)]\<close>: the management network first, then the inline NIC, then
  the relationship networks in declared order, then the port's entry last, which
  carries the port id only, its network id having been removed by the normalization.
  Before the normalization the merged list is \<open>[E, A, B, C, (net D, port P)]\<close>, and
  \<open>_merge_nics\<close> prepends the management entry exactly when the id is not \<open>None\<close> and
  no merged entry has it as its \<open>net-id\<close>.
\<close>

theorem prepare_server_nics_order:
  assumes nets: "get_openstack_ids_of_connected_nodes_by_openstack_type ctx (NETWORK_OPENSTACK_TYPE K)
                   = Inr [VStr B, VStr C]"
    and ports: "get_openstack_ids_of_connected_nodes_by_openstack_type ctx (PORT_OPENSTACK_TYPE K)
                   = Inr [port_id]"
    and port: "show_port neutron_client port_id = Inr port"
    and port_body: "py_subscript port ''port'' = Inr (VDict p)"
    and port_net: "map_of p ''network_id'' = Some (VStr D)"
    and port_pid: "map_of p ''id'' = Some (VStr P)"
    and mgmt: "get_management_network_id_and_name neutron_client ctx = Inr (VStr E, mname)"
    and inline: "map_of server ''nics'' = Some (VList [VDict [(''net-id'', VStr A)]])"
    and meta: "map_of server ''meta'' = Some (VDict meta)"
    and no_overlap: "E \<noteq> A" "E \<noteq> B" "E \<noteq> C" "E \<noteq> D"
    and no_substring: "\<not> str_contains D B" "\<not> str_contains D C"
  shows "(\<exists>server'. prepare_server_nics K neutron_client ctx server = Inr server' \<and>
           map_of server' ''nics'' =
             Some (VList [VDict [(''net-id'', VStr E)], VDict [(''net-id'', VStr A)],
                          VDict [(''net-id'', VStr B)], VDict [(''net-id'', VStr C)],
                          VDict [(''port-id'', VStr P)]]))
         \<and> merge_nics (VStr E)
              [[[(''net-id'', VStr A)]], [[(''net-id'', VStr B)], [(''net-id'', VStr C)]],
               [[(''net-id'', VStr D), (''port-id'', VStr P)]]]
             = Inr [[(''net-id'', VStr E)], [(''net-id'', VStr A)], [(''net-id'', VStr B)],
                    [(''net-id'', VStr C)], [(''net-id'', VStr D), (''port-id'', VStr P)]]
         \<and> (\<forall>m srcs r. merge_nics m srcs = Inr r \<longrightarrow>
               r = (if m \<noteq> VNone \<and> \<not> list_ex (\<lambda>nic. map_of nic ''net-id'' = Some m) (concat srcs)
                    then [(''net-id'', m)] # concat srcs else concat srcs))"
proof (intro conjI allI impI)
  have pn: "get_port_networks neutron_client [port_id]
              = Inr [[(''net-id'', VStr D), (''port-id'', VStr P)]]"
    using port port_body port_net port_pid
    by (simp add: get_port_networks_def get_network_def dict_item_def)
  have rm: "remove_port_networks [[(''net-id'', VStr D), (''port-id'', VStr P)]] [VStr B, VStr C]
              = Inr [VStr B, VStr C]"
    using no_substring by (simp add: remove_while_iterating_none dict_get_def)
  have il: "as_dict_list (dict_get_default server ''nics'' (VList [])) = Inr [[(''net-id'', VStr A)]]"
    using inline by (simp add: dict_get_default_def)
  have mg: "merge_nics (VStr E)
              [[[(''net-id'', VStr A)]],
               map (\<lambda>net_id. [(''net-id'', net_id)]) [VStr B, VStr C],
               [[(''net-id'', VStr D), (''port-id'', VStr P)]]]
            = Inr [[(''net-id'', VStr E)], [(''net-id'', VStr A)], [(''net-id'', VStr B)],
                   [(''net-id'', VStr C)], [(''net-id'', VStr D), (''port-id'', VStr P)]]"
    using no_overlap by (simp add: merge_nics_def dict_item_def)
  have nm: "normalize_nics [[(''net-id'', VStr E)], [(''net-id'', VStr A)], [(''net-id'', VStr B)],
                   [(''net-id'', VStr C)], [(''net-id'', VStr D), (''port-id'', VStr P)]]
            = [[(''net-id'', VStr E)], [(''net-id'', VStr A)], [(''net-id'', VStr B)],
                   [(''net-id'', VStr C)], [(''port-id'', VStr P)]]"
    by (simp add: normalize_nics_def normalize_def has_key_def dict_del_def)
  define server1 where "server1 = dict_set server ''nics'' (VList (map VDict
      [[(''net-id'', VStr E)], [(''net-id'', VStr A)], [(''net-id'', VStr B)],
       [(''net-id'', VStr C)], [(''port-id'', VStr P)]]))"
  have m1: "map_of server1 ''meta'' = Some (VDict meta)"
    using meta by (simp add: server1_def map_of_dict_set)
  obtain server2 where s2: "set_meta server1 ''cloudify_management_network_id'' (VStr E) = Inr server2"
    using set_meta_ok[OF m1] by blast
  have "\<exists>meta2. map_of server2 ''meta'' = Some (VDict meta2)"
    using s2 set_meta_ok[OF m1] by (auto simp: map_of_dict_set)
  then obtain meta2 where m2: "map_of server2 ''meta'' = Some (VDict meta2)" by blast
  obtain server3 where s3: "(if mname \<noteq> VNone
          then set_meta server2 ''cloudify_management_network_name'' mname
          else Inr server2) = Inr server3"
    using set_meta_ok[OF m2] by (cases "mname = VNone") auto
  have n3: "map_of server3 ''nics'' = map_of server1 ''nics''"
    using s3 s2 set_meta_other_key[of server2 _ mname server3 "''nics''"]
      set_meta_other_key[of server1 _ "VStr E" server2 "''nics''"]
    by (auto split: if_splits)
  have run: "prepare_server_nics K neutron_client ctx server = Inr server3"
    using nets ports mgmt pn rm il mg nm s2 s3
    by (simp add: prepare_server_nics_def server1_def Let_def)
  have "map_of server1 ''nics'' = Some (VList (map VDict
      [[(''net-id'', VStr E)], [(''net-id'', VStr A)], [(''net-id'', VStr B)],
       [(''net-id'', VStr C)], [(''port-id'', VStr P)]]))"
    by (simp add: server1_def map_of_dict_set)
  with run n3 show "\<exists>server'. prepare_server_nics K neutron_client ctx server = Inr server' \<and>
           map_of server' ''nics'' =
             Some (VList [VDict [(''net-id'', VStr E)], VDict [(''net-id'', VStr A)],
                          VDict [(''net-id'', VStr B)], VDict [(''net-id'', VStr C)],
                          VDict [(''port-id'', VStr P)]])"
    by simp
  from mg show "merge_nics (VStr E)
              [[[(''net-id'', VStr A)]], [[(''net-id'', VStr B)], [(''net-id'', VStr C)]],
               [[(''net-id'', VStr D), (''port-id'', VStr P)]]]
             = Inr [[(''net-id'', VStr E)], [(''net-id'', VStr A)], [(''net-id'', VStr B)],
                    [(''net-id'', VStr C)], [(''net-id'', VStr D), (''port-id'', VStr P)]]"
    by simp
next
  fix m srcs r
  assume "merge_nics m srcs = Inr r"
  then show "r = (if m \<noteq> VNone \<and> \<not> list_ex (\<lambda>nic. map_of nic ''net-id'' = Some m) (concat srcs)
                    then [(''net-id'', m)] # concat srcs else concat srcs)"
    by (rule merge_nics_rule)
qed

theorem prepare_server_nics_order_witness:
  "\<exists>server'. prepare_server_nics K0 (client_of Neutron [] 5) ctx_ordering server_ordering = Inr server' \<and>
     map_of server' ''nics'' =
       Some (VList [VDict [(''net-id'', VStr ''net-E'')], VDict [(''net-id'', VStr ''net-A'')],
                    VDict [(''net-id'', VStr ''net-B'')], VDict [(''net-id'', VStr ''net-C'')],
                    VDict [(''port-id'', VStr ''port-P'')]])"
proof -
  have nets: "get_openstack_ids_of_connected_nodes_by_openstack_type ctx_ordering
                (NETWORK_OPENSTACK_TYPE K0) = Inr [VStr ''net-B'', VStr ''net-C'']"
    by (simp add: get_openstack_ids_of_connected_nodes_by_openstack_type_def
        get_relationships_by_openstack_type_def ctx_ordering_def ctx_of_def rel_target_def K0_def
        dict_get_def dict_item_def OPENSTACK_TYPE_PROPERTY_def OPENSTACK_ID_PROPERTY_def)
  have ports: "get_openstack_ids_of_connected_nodes_by_openstack_type ctx_ordering
                (PORT_OPENSTACK_TYPE K0) = Inr [VStr ''port-P'']"
    by (simp add: get_openstack_ids_of_connected_nodes_by_openstack_type_def
        get_relationships_by_openstack_type_def ctx_ordering_def ctx_of_def rel_target_def K0_def
        dict_get_def dict_item_def OPENSTACK_TYPE_PROPERTY_def OPENSTACK_ID_PROPERTY_def)
  have port: "show_port (client_of Neutron [] 5) (VStr ''port-P'')
                = Inr (VDict [(''port'', VDict [(''id'', VStr ''port-P''), (''network_id'', VStr ''net-D'')])])"
    by (simp add: client_of_def)
  have mgmt: "get_management_network_id_and_name (client_of Neutron [] 5) ctx_ordering
                = Inr (VStr ''net-E'', VStr ''mgmt'')"
    by (simp add: get_management_network_id_and_name_def ctx_ordering_def ctx_of_def
        dict_get_def dict_item_def)
  show ?thesis
    using prepare_server_nics_order[OF nets ports port _ _ _ mgmt,
        of "[(''id'', VStr ''port-P''), (''network_id'', VStr ''net-D'')]" "''net-D''" "''port-P''"
        server_ordering "''net-A''" "[]"]
    by (simp add: server_ordering_def dict_item_def)
qed

text \<open>
  The list stored for the ordering example ends with the entry \<open>(port P)\<close>, not with
  an entry that has both the network \<open>D\<close> and the port \<open>P\<close>.
\<close>

theorem prepare_server_nics_order_counterexample:
  "prepare_server_nics K0 (client_of Neutron [] 5) ctx_ordering server_ordering =
     Inr [(''nics'', VList [VDict [(''net-id'', VStr ''net-E'')], VDict [(''net-id'', VStr ''net-A'')],
                            VDict [(''net-id'', VStr ''net-B'')], VDict [(''net-id'', VStr ''net-C'')],
                            VDict [(''port-id'', VStr ''port-P'')]]),
          (''meta'', VDict [(''cloudify_management_network_id'', VStr ''net-E''),
                            (''cloudify_management_network_name'', VStr ''mgmt'')])]
   \<and> VDict [(''port-id'', VStr ''port-P'')]
       \<noteq> VDict [(''net-id'', VStr ''net-D''), (''port-id'', VStr ''port-P'')]
   \<and> VDict [(''port-id'', VStr ''port-P'')]
       \<noteq> VDict [(''port-id'', VStr ''port-P''), (''net-id'', VStr ''net-D'')]"
  by code_simp

text \<open>
  Claim C5, at an input where the code departs from it. A server has two
  relationships to the network \<open>net-D\<close> and one to a port of \<open>net-D\<close>. Removing an
  element while the loop walks the list makes the loop skip the second \<open>net-D\<close>: the
  stored list keeps a network entry for \<open>net-D\<close> next to the port's entry.
\<close>

theorem prepare_server_nics_keeps_duplicate:
  "prepare_server_nics K0 (client_of Neutron [] 5) ctx_duplicate [(''meta'', VDict [])] =
     Inr [(''meta'', VDict []),
          (''nics'', VList [VDict [(''net-id'', VStr ''net-D'')],
                            VDict [(''port-id'', VStr ''port-P'')]])]"
  by code_simp

section \<open>Resolution of external resources\<close>

lemma resource_truthy_None: "\<not> resource_truthy client None"
  by (simp add: resource_truthy_def)

lemma get_resource_by_name_or_id_not_found:
  assumes "cosmo_list client openstack_type [(name_field_name, resource_id)] = Inr []"
    and "cosmo_list client openstack_type [(''id'', resource_id)] = Inr []"
  shows "get_resource_by_name_or_id resource_id openstack_type client True name_field_name
           = Inl (NonRecoverableError MISSING_RESOURCE_MESSAGE)"
  using assms
  by (simp add: get_resource_by_name_or_id_def cosmo_get_if_exists_def cosmo_get_def
      resource_truthy_def)

text \<open>
  Claim C7. A node declared with \<open>use_external_resource\<close> and \<open>create_if_missing\<close>
  (and with the \<open>resource_id\<close> property every node type declares), for which the
  lookup by name and then by id finds nothing, is resolved without an error:
  \<open>use_external_resource\<close> sets the runtime property \<open>conditionally_created\<close> to
  \<open>True\<close> and returns \<open>None\<close>, on which the caller goes on to create the resource.
\<close>

theorem use_external_resource_conditionally_created:
  assumes ext: "is_external_resource ctx"
    and cim: "is_create_if_missing ctx"
    and rid: "map_of (properties ctx) ''resource_id'' = Some dflt"
    and by_name: "cosmo_list client openstack_type
        [(name_field_name, dict_get_default (runtime_properties ctx) OPENSTACK_ID_PROPERTY dflt)] = Inr []"
    and by_id: "cosmo_list client openstack_type
        [(''id'', dict_get_default (runtime_properties ctx) OPENSTACK_ID_PROPERTY dflt)] = Inr []"
  shows "use_external_resource K ctx client openstack_type name_field_name =
           Inr (ctx\<lparr>runtime_properties :=
                  dict_set (runtime_properties ctx) CONDITIONALLY_CREATED (VBool True)\<rparr>, None)
         \<and> dict_get (dict_set (runtime_properties ctx) CONDITIONALLY_CREATED (VBool True))
              CONDITIONALLY_CREATED = VBool True"
proof -
  have "\<exists>e. get_resource_by_name_or_id_from_ctx ctx name_field_name openstack_type client = Inl e
          \<and> is_NonRecoverableError e"
    using rid get_resource_by_name_or_id_not_found[OF by_name by_id]
    by (simp add: get_resource_by_name_or_id_from_ctx_def dict_item_def Let_def)
  then show ?thesis
    using ext cim
    by (auto simp: use_external_resource_def dict_get_def map_of_dict_set)
qed

theorem use_external_resource_conditionally_created_witness:
  "use_external_resource K0 ctx_missing (client_of Nova [] 0) ''server'' ''name'' =
     Inr (ctx_missing\<lparr>runtime_properties := [(''conditionally_created'', VBool True)]\<rparr>, None)"
  using use_external_resource_conditionally_created
    [of ctx_missing "VStr ''my-server''" "client_of Nova [] 0" "''server''" "''name''" K0]
  by (simp add: ctx_missing_def ctx_of_def props_create_if_missing_def client_of_def
      is_external_resource_def is_external_resource_by_properties_def is_create_if_missing_def
      is_create_if_missing_by_properties_def has_key_def dict_get_def dict_get_default_def
      dict_set_def USE_EXTERNAL_RESOURCE_PROPERTY_def CREATE_IF_MISSING_PROPERTY_def
      OPENSTACK_ID_PROPERTY_def CONDITIONALLY_CREATED_def)

text \<open>
  Claim C6. When \<open>validate_resource\<close> finds no existing resource to use (the node is
  not external, or it is external with \<open>create_if_missing\<close> and the lookup fails), a
  client other than nova's makes it fail with the quota error exactly when the
  number of existing resources of the type is at least the quota and the quota is
  not \<open>-1\<close>; with nova's client, which validates compute servers, it returns
  without reading any quota.
\<close>

theorem validate_resource_quota:
  assumes new: "\<not> is_external_resource ctx \<or>
      (is_create_if_missing ctx \<and>
       (\<exists>e. get_resource_by_name_or_id_from_ctx ctx name_field_name openstack_type client = Inl e
            \<and> is_NonRecoverableError e))"
  shows "(client_kind client = Nova \<longrightarrow>
            validate_resource ctx client openstack_type name_field_name = Inr ())
       \<and> (client_kind client \<noteq> Nova \<and> cosmo_list client openstack_type [] = Inr resource_list \<and>
            get_quota client openstack_type = Inr quota \<longrightarrow>
            validate_resource ctx client openstack_type name_field_name =
              (if quota \<le> int (length resource_list) \<and> quota \<noteq> - 1
               then Inl (NonRecoverableError QUOTA_MESSAGE) else Inr ()))"
  using new
  by (auto simp: validate_resource_def resource_truthy_def INFINITE_RESOURCE_QUOTA_def Let_def)

theorem validate_resource_quota_witness:
  "validate_resource (ctx_of [(''resource_id'', VStr [])] [] [])
      (client_of Neutron (replicate 5 [(''name'', VStr ''n'')]) 5) ''network'' ''name''
     = Inl (NonRecoverableError QUOTA_MESSAGE)
   \<and> validate_resource (ctx_of [(''resource_id'', VStr [])] [] [])
      (client_of Neutron (replicate 4 [(''name'', VStr ''n'')]) 5) ''network'' ''name''
     = Inr ()
   \<and> validate_resource (ctx_of [(''resource_id'', VStr [])] [] [])
      (client_of Neutron (replicate 7 [(''name'', VStr ''n'')]) (- 1)) ''network'' ''name''
     = Inr ()
   \<and> validate_resource (ctx_of [(''resource_id'', VStr [])] [] [])
      (client_of Nova (replicate 5 [(''name'', VStr ''n'')]) 5) ''server'' ''name''
     = Inr ()"
  using validate_resource_quota
      [of "ctx_of [(''resource_id'', VStr [])] [] []" "''name''" "''network''"
          "client_of Neutron (replicate 5 [(''name'', VStr ''n'')]) 5"
          "replicate 5 [(''name'', VStr ''n'')]" 5]
    validate_resource_quota
      [of "ctx_of [(''resource_id'', VStr [])] [] []" "''name''" "''network''"
          "client_of Neutron (replicate 4 [(''name'', VStr ''n'')]) 5"
          "replicate 4 [(''name'', VStr ''n'')]" 5]
    validate_resource_quota
      [of "ctx_of [(''resource_id'', VStr [])] [] []" "''name''" "''network''"
          "client_of Neutron (replicate 7 [(''name'', VStr ''n'')]) (- 1)"
          "replicate 7 [(''name'', VStr ''n'')]" "- 1"]
    validate_resource_quota
      [of "ctx_of [(''resource_id'', VStr [])] [] []" "''name''" "''server''"
          "client_of Nova (replicate 5 [(''name'', VStr ''n'')]) 5"
          "replicate 5 [(''name'', VStr ''n'')]" 5]
  by (simp add: ctx_of_def client_of_def is_external_resource_def
      is_external_resource_by_properties_def has_key_def USE_EXTERNAL_RESOURCE_PROPERTY_def
      get_quota_def)

section \<open>Deleting a server\<close>

text \<open>
  Claim C1, at an input where the code departs from it. The node is declared external
  with \<open>create_if_missing\<close>, and its server was created by this deployment, so
  \<open>conditionally_created\<close> is set. \<open>delete\<close> of nova_plugin/server.py tests
  \<open>is_external_resource\<close> alone: it makes no call to the provider and only clears
  the runtime properties, whatever the compute client is. The delete the other
  resource types share, \<open>delete_resource_and_runtime_properties\<close>, tests
  \<open>is_external_resource_not_conditionally_created\<close> and issues the provider's
  delete for the same node.
\<close>

theorem delete_conditionally_created_server:
  "delete nova [] ctx_conditionally_created =
     ([], ctx_conditionally_created\<lparr>runtime_properties := []\<rparr>, Returned)
   \<and> fst (delete_resource_and_runtime_properties nova [] ctx_conditionally_created RUNTIME_PROPERTIES_KEYS)
       = [CosmoDeleteResource ''server'' (VStr ''srv-1'')]"
  by (simp add: delete_def delete_resource_and_runtime_properties_def ctx_conditionally_created_def
      ctx_of_def props_create_if_missing_def is_external_resource_def
      is_external_resource_by_properties_def is_external_resource_not_conditionally_created_def
      has_key_def dict_get_def dict_item_def delete_runtime_properties_def RUNTIME_PROPERTIES_KEYS_def
      COMMON_RUNTIME_PROPERTIES_KEYS_def dict_del_def USE_EXTERNAL_RESOURCE_PROPERTY_def
      CONDITIONALLY_CREATED_def OPENSTACK_ID_PROPERTY_def OPENSTACK_TYPE_PROPERTY_def
      OPENSTACK_NAME_PROPERTY_def OPENSTACK_RESOURCE_PROPERTY_def split: option.splits)

section \<open>Stopping and rebooting a server\<close>

text \<open>
  Claim C3. \<open>stop\<close> on a managed server reads the server first. If its task state
  is \<open>powering-off\<close>, the operation asks for a retry after 30 seconds and issues no
  command. If its status is \<open>SHUTOFF\<close> (and the task state is not \<open>powering-off\<close>),
  it returns and issues no command. Otherwise it issues the stop command, sleeps 10
  seconds, reads the server again, and asks for a retry after 30 seconds if the
  status is still not \<open>SHUTOFF\<close> (it returns if it is).
\<close>

theorem stop_decision:
  assumes managed: "\<not> is_external_resource ctx"
    and sid: "map_of (runtime_properties ctx) OPENSTACK_ID_PROPERTY = Some server_id"
    and got: "servers_get nova log server_id = Inr server"
    and ts: "map_of server OS_EXT_STS_TASK_STATE = Some task_state"
    and st: "map_of server ''status'' = Some status"
  shows "(task_state = VStr SERVER_TASK_STATE_POWERING_OFF \<longrightarrow>
            stop nova log ctx = (log @ [ServersGet server_id], Retry ''Server is stopping'' 30))
       \<and> (task_state \<noteq> VStr SERVER_TASK_STATE_POWERING_OFF \<and> status = VStr SERVER_STATUS_SHUTOFF \<longrightarrow>
            stop nova log ctx = (log @ [ServersGet server_id], Returned))
       \<and> (task_state \<noteq> VStr SERVER_TASK_STATE_POWERING_OFF \<and> status \<noteq> VStr SERVER_STATUS_SHUTOFF \<and>
          servers_stop nova (log @ [ServersGet server_id]) (VDict server) = None \<and>
          map_of server ''id'' = Some sid' \<and>
          servers_get nova (log @ [ServersGet server_id, ServersStop (VDict server), Sleep 10]) sid'
            = Inr server' \<and>
          map_of server' ''status'' = Some status' \<longrightarrow>
            stop nova log ctx =
              (log @ [ServersGet server_id, ServersStop (VDict server), Sleep 10, ServersGet sid'],
               if status' \<noteq> VStr SERVER_STATUS_SHUTOFF then Retry ''Server has {} state.'' 30
               else Returned))"
  using assms
  by (auto simp: stop_def server_stop_def get_server_by_context_def get_openstack_id_def
      dict_item_def getattr_def Let_def)

theorem stop_decision_witness:
  "stop (nova_of (\<lambda>log. server_object ''ACTIVE'' (VStr ''powering-off''))) [] ctx_managed
     = ([ServersGet (VStr ''srv-1'')], Retry ''Server is stopping'' 30)
   \<and> stop (nova_of (\<lambda>log. server_object ''SHUTOFF'' VNone)) [] ctx_managed
     = ([ServersGet (VStr ''srv-1'')], Returned)
   \<and> stop (nova_of (\<lambda>log. server_object ''ACTIVE'' VNone)) [] ctx_managed
     = ([ServersGet (VStr ''srv-1''), ServersStop (VDict (server_object ''ACTIVE'' VNone)), Sleep 10,
         ServersGet (VStr ''srv-1'')],
        Retry ''Server has {} state.'' 30)"
  using stop_decision
      [of ctx_managed "VStr ''srv-1''" "nova_of (\<lambda>log. server_object ''ACTIVE'' (VStr ''powering-off''))"
          "[]" "server_object ''ACTIVE'' (VStr ''powering-off'')" "VStr ''powering-off''" "VStr ''ACTIVE''"]
    stop_decision
      [of ctx_managed "VStr ''srv-1''" "nova_of (\<lambda>log. server_object ''SHUTOFF'' VNone)"
          "[]" "server_object ''SHUTOFF'' VNone" VNone "VStr ''SHUTOFF''"]
    stop_decision
      [of ctx_managed "VStr ''srv-1''" "nova_of (\<lambda>log. server_object ''ACTIVE'' VNone)"
          "[]" "server_object ''ACTIVE'' VNone" VNone "VStr ''ACTIVE''" "VStr ''srv-1''"
          "server_object ''ACTIVE'' VNone" "VStr ''ACTIVE''"]
  by (simp add: ctx_managed_def ctx_of_def nova_of_def server_object_def is_external_resource_def
      is_external_resource_by_properties_def has_key_def USE_EXTERNAL_RESOURCE_PROPERTY_def
      OPENSTACK_ID_PROPERTY_def OS_EXT_STS_TASK_STATE_def SERVER_TASK_STATE_POWERING_OFF_def
      SERVER_STATUS_SHUTOFF_def)

text \<open>
  The rows of the reboot table that the operation handles, on a retried invocation
  (no reboot command is issued then): \<open>REBOOT\<close>, \<open>HARD_REBOOT\<close> and \<open>UNKNOWN\<close> ask for
  a retry after 30 seconds, \<open>ACTIVE\<close> returns, \<open>ERROR\<close> raises a NonRecoverableError.
\<close>

lemma reboot_handled_statuses:
  assumes sid: "map_of (runtime_properties ctx) OPENSTACK_ID_PROPERTY = Some server_id"
    and retried: "retry_number ctx \<noteq> 0"
    and got: "servers_get nova log server_id = Inr server"
    and oid: "map_of server ''id'' = Some sid'"
    and again: "servers_get nova (log @ [ServersGet server_id]) sid' = Inr server'"
    and st: "map_of server' ''status'' = Some status"
  shows "(status \<in> {VStr SERVER_STATUS_REBOOT, VStr SERVER_STATUS_HARD_REBOOT, VStr SERVER_STATUS_UNKNOWN}
            \<longrightarrow> reboot nova log ctx reboot_type
                 = (log @ [ServersGet server_id, ServersGet sid'],
                    Retry ''Server has {0} state. Waiting.'' 30))
       \<and> (status = VStr SERVER_STATUS_ACTIVE
            \<longrightarrow> reboot nova log ctx reboot_type
                 = (log @ [ServersGet server_id, ServersGet sid'], Returned))
       \<and> (status = VStr SERVER_STATUS_ERROR
            \<longrightarrow> reboot nova log ctx reboot_type
                 = (log @ [ServersGet server_id, ServersGet sid'],
                    Raised (NonRecoverableError ''Reboot operation finished in {} state.'')))"
  using assms
  by (auto simp: reboot_def get_server_by_context_def get_openstack_id_def dict_item_def getattr_def
      Let_def SERVER_STATUS_REBOOT_def SERVER_STATUS_HARD_REBOOT_def
      SERVER_STATUS_UNKNOWN_def SERVER_STATUS_ACTIVE_def SERVER_STATUS_ERROR_def)

text \<open>
  Claim C8, at an input where the code departs from it. After a soft reboot the
  server is observed in the status \<open>PAUSED\<close>, none of the statuses the operation
  names. The last branch builds its message from \<open>server.state\<close>, an attribute the
  server object does not have (the operation reads \<open>server.status\<close> everywhere
  else): an AttributeError leaves the operation instead of the NonRecoverableError
  the branch is written to raise.
\<close>

theorem reboot_unexpected_status:
  "reboot (nova_of (\<lambda>log. server_object ''PAUSED'' VNone)) [] ctx_managed ''soft'' =
     ([ServersGet (VStr ''srv-1''),
       ServersReboot (VDict (server_object ''PAUSED'' VNone)) ''SOFT'',
       ServersGet (VStr ''srv-1'')],
      Raised (AttributeError ''state''))"
  by code_simp

section \<open>Attaching a volume\<close>

text \<open>
  Claim C2, as amended. On a relationship that is not external, when the attach
  command succeeds and the wait for \<open>IN_USE\<close> then fails with an error \<open>e0\<close> that is
  not a NonRecoverableError (the wait raises it, or the wait reports that the status
  was not reached and \<open>e0\<close> is the RecoverableError the operation raises for that),
  \<open>attach_volume\<close> runs the compensating \<open>_detach_volume\<close> exactly once, after the
  attach and the wait, and then: if the detach returns, \<open>e0\<close> leaves the operation;
  if the detach raises \<open>e'\<close>, \<open>NonRecoverableError(e')\<close> leaves the operation, built
  around the error of the detach, not around \<open>e0\<close>. The detach looks the attachment
  up; when none is recorded it issues no command to the provider, and when one is
  recorded it issues exactly one \<open>delete_server_volume\<close> and waits for \<open>AVAILABLE\<close>.
\<close>

theorem attach_volume_rollback:
  assumes managed: "\<not> is_external_relationship_not_conditionally_created ctx"
    and sid: "map_of (runtime_properties (target ctx)) OPENSTACK_ID_PROPERTY = Some server_id"
    and vid: "map_of (runtime_properties (source ctx)) OPENSTACK_ID_PROPERTY = Some volume_id"
    and dev: "map_of (properties (source ctx)) (DEVICE_NAME_PROPERTY K) = Some device"
    and l1: "log1 = log @ [CreateServerVolume server_id volume_id
                             (if device \<noteq> VStr ''auto'' then device else VNone)]"
    and l2: "log2 = log1 @ [WaitUntilStatus volume_id (VOLUME_STATUS_IN_USE K)
                              status_attempts status_timeout]"
    and l3: "log3 = log2 @ [GetAttachment volume_id server_id]"
    and attach_ok: "create_server_volume nova log server_id volume_id
                      (if device \<noteq> VStr ''auto'' then device else VNone) = None"
    and wait_fails:
      "(wait_until_status vol log1 volume_id (VOLUME_STATUS_IN_USE K) status_attempts status_timeout
          = Inl e0 \<and> \<not> is_NonRecoverableError e0)
       \<or> (\<exists>v. wait_until_status vol log1 volume_id (VOLUME_STATUS_IN_USE K) status_attempts
                  status_timeout = Inr (v, False) \<and>
               e0 = RecoverableError
                 ''Waiting for volume status {0} failed - detaching volume and retrying..'')"
  shows "attach_volume K nova vol log ctx status_attempts status_timeout =
           (case detach_volume_impl K nova vol log2 server_id volume_id status_attempts status_timeout of
              (log', None) \<Rightarrow> (log', ctx, Raised e0)
            | (log', Some e') \<Rightarrow> (log', ctx, Raised (NonRecoverableErrorOf e')))
       \<and> (\<forall>attachment. get_attachment vol log2 volume_id server_id = Inr attachment \<and>
             \<not> truthy attachment \<longrightarrow>
             attach_volume K nova vol log ctx status_attempts status_timeout
               = (log3, ctx, Raised e0))
       \<and> (\<forall>attachment attachment_id r.
             get_attachment vol log2 volume_id server_id = Inr attachment \<and> truthy attachment \<and>
             py_subscript attachment ''id'' = Inr attachment_id \<and>
             delete_server_volume nova log3 server_id attachment_id = None \<and>
             wait_until_status vol (log3 @ [DeleteServerVolume server_id attachment_id]) volume_id
               (VOLUME_STATUS_AVAILABLE K) status_attempts status_timeout = Inr r \<longrightarrow>
             attach_volume K nova vol log ctx status_attempts status_timeout
               = (log3 @ [DeleteServerVolume server_id attachment_id,
                          WaitUntilStatus volume_id (VOLUME_STATUS_AVAILABLE K)
                            status_attempts status_timeout],
                  ctx, Raised e0))
       \<and> (\<forall>e'. snd (detach_volume_impl K nova vol log2 server_id volume_id
                         status_attempts status_timeout) = Some e' \<longrightarrow>
             snd (snd (attach_volume K nova vol log ctx status_attempts status_timeout))
               = Raised (NonRecoverableErrorOf e'))"
proof -
  have try_fails: "attach_volume_try K vol log1 ctx server_id volume_id device
                     status_attempts status_timeout = (log2, ctx, Some e0)"
    using wait_fails l2 by (auto simp: attach_volume_try_def Let_def)
  have e0: "\<not> is_NonRecoverableError e0"
    using wait_fails by auto
  have main: "attach_volume K nova vol log ctx status_attempts status_timeout =
           (case detach_volume_impl K nova vol log2 server_id volume_id status_attempts status_timeout of
              (log', None) \<Rightarrow> (log', ctx, Raised e0)
            | (log', Some e') \<Rightarrow> (log', ctx, Raised (NonRecoverableErrorOf e')))"
    using managed sid vid dev attach_ok try_fails e0 l1
    by (simp add: attach_volume_def get_openstack_id_def dict_item_def Let_def
        prepare_attach_volume_to_be_repeated_def split: prod.splits option.splits)
  show ?thesis
  proof (intro conjI allI impI)
    show "attach_volume K nova vol log ctx status_attempts status_timeout =
           (case detach_volume_impl K nova vol log2 server_id volume_id status_attempts status_timeout of
              (log', None) \<Rightarrow> (log', ctx, Raised e0)
            | (log', Some e') \<Rightarrow> (log', ctx, Raised (NonRecoverableErrorOf e')))"
      by (rule main)
  next
    fix attachment
    assume "get_attachment vol log2 volume_id server_id = Inr attachment \<and> \<not> truthy attachment"
    then show "attach_volume K nova vol log ctx status_attempts status_timeout = (log3, ctx, Raised e0)"
      using l3 by (simp add: main detach_volume_impl_def Let_def)
  next
    fix attachment attachment_id r
    assume "get_attachment vol log2 volume_id server_id = Inr attachment \<and> truthy attachment \<and>
             py_subscript attachment ''id'' = Inr attachment_id \<and>
             delete_server_volume nova log3 server_id attachment_id = None \<and>
             wait_until_status vol (log3 @ [DeleteServerVolume server_id attachment_id]) volume_id
               (VOLUME_STATUS_AVAILABLE K) status_attempts status_timeout = Inr r"
    then show "attach_volume K nova vol log ctx status_attempts status_timeout
               = (log3 @ [DeleteServerVolume server_id attachment_id,
                          WaitUntilStatus volume_id (VOLUME_STATUS_AVAILABLE K)
                            status_attempts status_timeout],
                  ctx, Raised e0)"
      using l3 by (simp add: main detach_volume_impl_def Let_def)
  next
    fix e'
    assume "snd (detach_volume_impl K nova vol log2 server_id volume_id
                         status_attempts status_timeout) = Some e'"
    then show "snd (snd (attach_volume K nova vol log ctx status_attempts status_timeout))
               = Raised (NonRecoverableErrorOf e')"
      by (cases "detach_volume_impl K nova vol log2 server_id volume_id status_attempts status_timeout")
         (auto simp: main split: option.splits)
  qed
qed

theorem attach_volume_rollback_witness:
  "attach_volume K0 (nova_of (\<lambda>log. []))
      (volume_module_of (Inr (VNone, False)) (Inr (VDict [(''id'', VStr ''att-1'')])))
      [] ctx_attach 10 2
   = ([CreateServerVolume (VStr ''srv-1'') (VStr ''vol-1'') VNone,
       WaitUntilStatus (VStr ''vol-1'') ''in-use'' 10 2,
       GetAttachment (VStr ''vol-1'') (VStr ''srv-1''),
       DeleteServerVolume (VStr ''srv-1'') (VStr ''att-1''),
       WaitUntilStatus (VStr ''vol-1'') ''available'' 10 2],
      ctx_attach,
      Raised (RecoverableError
        ''Waiting for volume status {0} failed - detaching volume and retrying..''))"
proof -
  let ?nova = "nova_of (\<lambda>log. [])"
  let ?vol = "volume_module_of (Inr (VNone, False)) (Inr (VDict [(''id'', VStr ''att-1'')]))"
  let ?log1 = "[CreateServerVolume (VStr ''srv-1'') (VStr ''vol-1'') VNone]"
  let ?log2 = "?log1 @ [WaitUntilStatus (VStr ''vol-1'') ''in-use'' 10 2]"
  let ?log3 = "?log2 @ [GetAttachment (VStr ''vol-1'') (VStr ''srv-1'')]"
  have managed: "\<not> is_external_relationship_not_conditionally_created ctx_attach"
    by (simp add: ctx_attach_def ctx_of_def is_external_relationship_not_conditionally_created_def
        is_external_resource_by_properties_def has_key_def)
  have sid: "map_of (runtime_properties (target ctx_attach)) OPENSTACK_ID_PROPERTY = Some (VStr ''srv-1'')"
    and vid: "map_of (runtime_properties (source ctx_attach)) OPENSTACK_ID_PROPERTY = Some (VStr ''vol-1'')"
    and dev: "map_of (properties (source ctx_attach)) (DEVICE_NAME_PROPERTY K0) = Some (VStr ''auto'')"
    by (simp_all add: ctx_attach_def ctx_of_def OPENSTACK_ID_PROPERTY_def K0_def)
  have l1: "?log1 = [] @ [CreateServerVolume (VStr ''srv-1'') (VStr ''vol-1'')
                            (if VStr ''auto'' \<noteq> VStr ''auto'' then VStr ''auto'' else VNone)]"
    and l2: "?log2 = ?log1 @ [WaitUntilStatus (VStr ''vol-1'') (VOLUME_STATUS_IN_USE K0) 10 2]"
    by (simp_all add: K0_def)
  have attach_ok: "create_server_volume ?nova [] (VStr ''srv-1'') (VStr ''vol-1'')
                     (if VStr ''auto'' \<noteq> VStr ''auto'' then VStr ''auto'' else VNone) = None"
    by (simp add: nova_of_def)
  have wait_fails:
    "(wait_until_status ?vol ?log1 (VStr ''vol-1'') (VOLUME_STATUS_IN_USE K0) 10 2
        = Inl (RecoverableError ''Waiting for volume status {0} failed - detaching volume and retrying..'')
      \<and> \<not> is_NonRecoverableError
            (RecoverableError ''Waiting for volume status {0} failed - detaching volume and retrying..''))
     \<or> (\<exists>v. wait_until_status ?vol ?log1 (VStr ''vol-1'') (VOLUME_STATUS_IN_USE K0) 10 2
               = Inr (v, False) \<and>
             RecoverableError ''Waiting for volume status {0} failed - detaching volume and retrying..''
               = RecoverableError
                   ''Waiting for volume status {0} failed - detaching volume and retrying..'')"
    by (simp add: volume_module_of_def K0_def)
  have found: "get_attachment ?vol ?log2 (VStr ''vol-1'') (VStr ''srv-1'')
                 = Inr (VDict [(''id'', VStr ''att-1'')]) \<and>
               truthy (VDict [(''id'', VStr ''att-1'')]) \<and>
               py_subscript (VDict [(''id'', VStr ''att-1'')]) ''id'' = Inr (VStr ''att-1'') \<and>
               delete_server_volume ?nova ?log3 (VStr ''srv-1'') (VStr ''att-1'') = None \<and>
               wait_until_status ?vol (?log3 @ [DeleteServerVolume (VStr ''srv-1'') (VStr ''att-1'')])
                 (VStr ''vol-1'') (VOLUME_STATUS_AVAILABLE K0) 10 2 = Inr (VNone, True)"
    by (simp add: volume_module_of_def nova_of_def dict_item_def K0_def)
  from attach_volume_rollback[OF managed sid vid dev l1 l2 refl attach_ok wait_fails,
      THEN conjunct2, THEN conjunct2, THEN conjunct1, rule_format, OF found]
  show ?thesis by (simp add: K0_def)
qed

text \<open>
  Two runs in which the wait for \<open>IN_USE\<close> reports failure. In the first the
  attachment lookup of the compensating detach raises: the operation ends with
  \<open>NonRecoverableError\<close> built around that exception, and the error of the wait is
  not in it. In the second no attachment is recorded: no detach command is issued
  and the error of the wait leaves the operation.
\<close>

theorem attach_volume_rollback_counterexample:
  "attach_volume K0 (nova_of (\<lambda>log. []))
      (volume_module_of (Inr (VNone, False)) (Inl (ClientException 500 ''cinder is unavailable'')))
      [] ctx_attach 10 2
   = ([CreateServerVolume (VStr ''srv-1'') (VStr ''vol-1'') VNone,
       WaitUntilStatus (VStr ''vol-1'') ''in-use'' 10 2,
       GetAttachment (VStr ''vol-1'') (VStr ''srv-1'')],
      ctx_attach,
      Raised (NonRecoverableErrorOf (ClientException 500 ''cinder is unavailable'')))
   \<and> NonRecoverableErrorOf (ClientException 500 ''cinder is unavailable'')
       \<noteq> NonRecoverableErrorOf (RecoverableError
             ''Waiting for volume status {0} failed - detaching volume and retrying..'')
   \<and> attach_volume K0 (nova_of (\<lambda>log. []))
      (volume_module_of (Inr (VNone, False)) (Inr VNone))
      [] ctx_attach 10 2
   = ([CreateServerVolume (VStr ''srv-1'') (VStr ''vol-1'') VNone,
       WaitUntilStatus (VStr ''vol-1'') ''in-use'' 10 2,
       GetAttachment (VStr ''vol-1'') (VStr ''srv-1'')],
      ctx_attach,
      Raised (RecoverableError
        ''Waiting for volume status {0} failed - detaching volume and retrying..''))"
  by code_simp

section \<open>Creating a server with a boot volume\<close>

lemma use_external_resource_frame:
  "use_external_resource K ctx client openstack_type name_field_name = Inr (ctx1, r) \<Longrightarrow>
   properties ctx1 = properties ctx \<and> relationships ctx1 = relationships ctx \<and>
   deployment_id ctx1 = deployment_id ctx \<and> instance_id ctx1 = instance_id ctx"
  by (auto simp: use_external_resource_def Let_def split: if_splits sum.splits option.splits)

text \<open>
  Claim C10, as amended. When \<open>create\<close> goes on to build a new server
  (\<open>use_external_resource\<close> returns no existing server) for a node with its
  \<open>resource_id\<close> and \<open>server\<close> properties: with more than one bootable volume among
  the relationship targets the operation ends with the NonRecoverableError
  \<open>2 boot volumes not supported\<close> and the rest of the operation, which holds the
  provider's create call, does not run; with exactly one, whose id is \<open>vid\<close>, the
  rest of the operation receives a \<open>server\<close> dictionary whose
  \<open>block_device_mapping\<close> maps \<open>vda\<close> to \<open>vid:::0\<close> and whose
  \<open>availability_zone\<close> is the volume's when the server declares none (or an empty
  one) and the declared one otherwise.
\<close>

theorem create_boot_volume:
  assumes managed: "use_external_resource K ctx nova_client SERVER_OPENSTACK_TYPE ''name''
                      = Inr (ctx1, None)"
    and name: "get_resource_id ctx SERVER_OPENSTACK_TYPE = Inr name"
    and sp: "map_of (properties ctx) ''server'' = Some (VDict server_property)"
    and s0: "server0 = dict_update (dict_update [(''name'', name)] server_property) args"
  shows "(1 < length (boot_volume_targets K (VOLUME_OPENSTACK_TYPE K) ctx) \<longrightarrow>
            create K nova_client ctx args external_server_branch managed_rest
              = Inl (NonRecoverableError ''2 boot volumes not supported''))
       \<and> (\<forall>bv vid az.
            boot_volume_targets K (VOLUME_OPENSTACK_TYPE K) ctx = [bv] \<and>
            map_of bv OPENSTACK_ID_PROPERTY = Some (VStr vid) \<and>
            (truthy (dict_get server0 ''availability_zone'') \<or>
             map_of bv OPENSTACK_AZ_PROPERTY = Some az) \<and>
            (map_of server0 ''block_device_mapping'' = None \<or>
             (\<exists>d. map_of server0 ''block_device_mapping'' = Some (VDict d))) \<longrightarrow>
            (\<exists>server bdm.
               create K nova_client ctx args external_server_branch managed_rest
                 = Inr (managed_rest ctx1 server) \<and>
               map_of server ''block_device_mapping'' = Some (VDict bdm) \<and>
               map_of bdm ''vda'' = Some (VStr (vid @ '':::0'')) \<and>
               map_of server ''availability_zone'' =
                 (if truthy (dict_get server0 ''availability_zone'')
                  then map_of server0 ''availability_zone'' else Some az)))"
proof -
  from use_external_resource_frame[OF managed]
  have fr: "properties ctx1 = properties ctx" "relationships ctx1 = relationships ctx"
    "deployment_id ctx1 = deployment_id ctx" "instance_id ctx1 = instance_id ctx"
    by simp_all
  have targets: "boot_volume_targets K (VOLUME_OPENSTACK_TYPE K) ctx1
                   = boot_volume_targets K (VOLUME_OPENSTACK_TYPE K) ctx"
    by (simp add: boot_volume_targets_def fr)
  have "get_resource_id ctx1 SERVER_OPENSTACK_TYPE = get_resource_id ctx SERVER_OPENSTACK_TYPE"
    unfolding get_resource_id_def fr ..
  with name have name1: "get_resource_id ctx1 SERVER_OPENSTACK_TYPE = Inr name"
    by simp
  have cr: "create K nova_client ctx args external_server_branch managed_rest =
          (case handle_boot_volume K server0 ctx1 of
             Inl e \<Rightarrow> Inl e
           | Inr server \<Rightarrow> Inr (managed_rest ctx1 server))"
    using managed name1 sp s0
    by (simp add: create_def create_managed_def dict_item_def fr)
  show ?thesis
  proof (intro conjI allI impI)
    assume "1 < length (boot_volume_targets K (VOLUME_OPENSTACK_TYPE K) ctx)"
    then have "handle_boot_volume K server0 ctx1 = Inl (NonRecoverableError ''2 boot volumes not supported'')"
      by (auto simp: handle_boot_volume_def get_boot_volume_relationships_def targets split: list.splits)
    then show "create K nova_client ctx args external_server_branch managed_rest
              = Inl (NonRecoverableError ''2 boot volumes not supported'')"
      by (simp add: cr)
  next
    fix bv vid az
    assume h: "boot_volume_targets K (VOLUME_OPENSTACK_TYPE K) ctx = [bv] \<and>
            map_of bv OPENSTACK_ID_PROPERTY = Some (VStr vid) \<and>
            (truthy (dict_get server0 ''availability_zone'') \<or>
             map_of bv OPENSTACK_AZ_PROPERTY = Some az) \<and>
            (map_of server0 ''block_device_mapping'' = None \<or>
             (\<exists>d. map_of server0 ''block_device_mapping'' = Some (VDict d)))"
    then obtain bdm0 where bdm0:
      "(case map_of server0 ''block_device_mapping'' of
          None \<Rightarrow> Inr []
        | Some (VDict bdm) \<Rightarrow> Inr bdm
        | Some other \<Rightarrow> Inl (TypeError ''object does not support item assignment'')) = Inr bdm0"
      by auto
    define server1 where "server1 = dict_set server0 ''block_device_mapping''
        (VDict (dict_set bdm0 ''vda'' (VStr (vid @ '':::0''))))"
    define server2 where "server2 =
        (if \<not> truthy (dict_get server1 ''availability_zone'')
         then dict_set server1 ''availability_zone'' az else server1)"
    have az1: "dict_get server1 ''availability_zone'' = dict_get server0 ''availability_zone''"
      by (simp add: server1_def dict_get_def map_of_dict_set)
    have hb: "handle_boot_volume K server0 ctx1 = Inr server2"
      using h bdm0 az1
      by (auto simp: handle_boot_volume_def get_boot_volume_relationships_def targets dict_item_def
          server1_def server2_def Let_def)
    have b2: "map_of server2 ''block_device_mapping''
            = Some (VDict (dict_set bdm0 ''vda'' (VStr (vid @ '':::0''))))"
      by (simp add: server2_def server1_def map_of_dict_set)
    have v2: "map_of (dict_set bdm0 ''vda'' (VStr (vid @ '':::0''))) ''vda''
            = Some (VStr (vid @ '':::0''))"
      by (simp add: map_of_dict_set)
    have z2: "map_of server2 ''availability_zone'' =
                 (if truthy (dict_get server0 ''availability_zone'')
                  then map_of server0 ''availability_zone'' else Some az)"
      by (simp add: server2_def az1 map_of_dict_set) (simp add: server1_def map_of_dict_set)
    have c2: "create K nova_client ctx args external_server_branch managed_rest
                 = Inr (managed_rest ctx1 server2)"
      using hb by (simp add: cr)
    from c2 b2 v2 z2 show "\<exists>server bdm.
               create K nova_client ctx args external_server_branch managed_rest
                 = Inr (managed_rest ctx1 server) \<and>
               map_of server ''block_device_mapping'' = Some (VDict bdm) \<and>
               map_of bdm ''vda'' = Some (VStr (vid @ '':::0'')) \<and>
               map_of server ''availability_zone'' =
                 (if truthy (dict_get server0 ''availability_zone'')
                  then map_of server0 ''availability_zone'' else Some az)"
      by blast
  qed
qed

theorem create_boot_volume_witness:
  "create K0 (client_of Nova [] 0) ctx_two_boot [] (\<lambda>c s. s) (\<lambda>c s. s)
     = Inl (NonRecoverableError ''2 boot volumes not supported'')
   \<and> (\<exists>server bdm.
         create K0 (client_of Nova [] 0) ctx_one_boot [] (\<lambda>c s. s) (\<lambda>c s. s) = Inr server \<and>
         map_of server ''block_device_mapping'' = Some (VDict bdm) \<and>
         map_of bdm ''vda'' = Some (VStr ''vol-1:::0'') \<and>
         map_of server ''availability_zone'' = Some (VStr ''az-1''))"
proof
  have managed: "use_external_resource K0 ctx_two_boot (client_of Nova [] 0) SERVER_OPENSTACK_TYPE ''name''
                   = Inr (ctx_two_boot, None)"
    by (simp add: use_external_resource_def is_external_resource_def
        is_external_resource_by_properties_def has_key_def ctx_two_boot_def ctx_of_def
        USE_EXTERNAL_RESOURCE_PROPERTY_def)
  have name: "get_resource_id ctx_two_boot SERVER_OPENSTACK_TYPE = Inr (VStr ''server_dep_server_1'')"
    by (simp add: get_resource_id_def dict_item_def ctx_two_boot_def ctx_of_def SERVER_OPENSTACK_TYPE_def)
  have sp: "map_of (properties ctx_two_boot) ''server'' = Some (VDict [(''flavor'', VStr ''m1.small'')])"
    by (simp add: ctx_two_boot_def ctx_of_def)
  have two: "1 < length (boot_volume_targets K0 (VOLUME_OPENSTACK_TYPE K0) ctx_two_boot)"
    by (simp add: boot_volume_targets_def ctx_two_boot_def ctx_of_def boot_volume_def K0_def
        dict_get_def dict_get_default_def OPENSTACK_TYPE_PROPERTY_def)
  from create_boot_volume[OF managed name sp refl, THEN conjunct1, rule_format, OF two]
  show "create K0 (client_of Nova [] 0) ctx_two_boot [] (\<lambda>c s. s) (\<lambda>c s. s)
     = Inl (NonRecoverableError ''2 boot volumes not supported'')" .
next
  have managed: "use_external_resource K0 ctx_one_boot (client_of Nova [] 0) SERVER_OPENSTACK_TYPE ''name''
                   = Inr (ctx_one_boot, None)"
    by (simp add: use_external_resource_def is_external_resource_def
        is_external_resource_by_properties_def has_key_def ctx_one_boot_def ctx_of_def
        USE_EXTERNAL_RESOURCE_PROPERTY_def)
  have name: "get_resource_id ctx_one_boot SERVER_OPENSTACK_TYPE = Inr (VStr ''server_dep_server_1'')"
    by (simp add: get_resource_id_def dict_item_def ctx_one_boot_def ctx_of_def SERVER_OPENSTACK_TYPE_def)
  have sp: "map_of (properties ctx_one_boot) ''server'' = Some (VDict [(''flavor'', VStr ''m1.small'')])"
    by (simp add: ctx_one_boot_def ctx_of_def)
  have one: "boot_volume_targets K0 (VOLUME_OPENSTACK_TYPE K0) ctx_one_boot = [boot_volume ''vol-1''] \<and>
      map_of (boot_volume ''vol-1'') OPENSTACK_ID_PROPERTY = Some (VStr ''vol-1'') \<and>
      (truthy (dict_get (dict_update (dict_update [(''name'', VStr ''server_dep_server_1'')]
                 [(''flavor'', VStr ''m1.small'')]) []) ''availability_zone'') \<or>
       map_of (boot_volume ''vol-1'') OPENSTACK_AZ_PROPERTY = Some (VStr ''az-1'')) \<and>
      (map_of (dict_update (dict_update [(''name'', VStr ''server_dep_server_1'')]
                 [(''flavor'', VStr ''m1.small'')]) []) ''block_device_mapping'' = None \<or>
       (\<exists>d. map_of (dict_update (dict_update [(''name'', VStr ''server_dep_server_1'')]
                 [(''flavor'', VStr ''m1.small'')]) []) ''block_device_mapping'' = Some (VDict d)))"
    by (simp add: boot_volume_targets_def ctx_one_boot_def ctx_of_def boot_volume_def rel_target_def
        K0_def dict_get_def dict_get_default_def OPENSTACK_TYPE_PROPERTY_def OPENSTACK_ID_PROPERTY_def
        OPENSTACK_AZ_PROPERTY_def dict_update_def dict_set_def has_key_def)
  from create_boot_volume[OF managed name sp refl, THEN conjunct2, rule_format, OF one,
      of "\<lambda>c s. s" "\<lambda>c s. s"]
  show "\<exists>server bdm.
         create K0 (client_of Nova [] 0) ctx_one_boot [] (\<lambda>c s. s) (\<lambda>c s. s) = Inr server \<and>
         map_of server ''block_device_mapping'' = Some (VDict bdm) \<and>
         map_of bdm ''vda'' = Some (VStr ''vol-1:::0'') \<and>
         map_of server ''availability_zone'' = Some (VStr ''az-1'')"
    by (simp add: dict_update_def dict_set_def has_key_def dict_get_def)
qed

text \<open>
  A node declared external whose server exists, related to two bootable volumes:
  \<open>create\<close> returns from the branch for an existing server, whatever that branch
  and the rest of the operation are, and the boot volumes are never looked at.
\<close>

theorem create_boot_volume_counterexample:
  "1 < length (boot_volume_targets K0 (VOLUME_OPENSTACK_TYPE K0) ctx_external_two_boot)
   \<and> (\<forall>(external_server_branch :: node_instance_ctx \<Rightarrow> pydict \<Rightarrow> outcome) managed_rest.
        create K0 client_with_server ctx_external_two_boot [] external_server_branch managed_rest
          = Inr (external_server_branch
                   (ctx_external_two_boot\<lparr>runtime_properties :=
                      [(''external_id'', VStr ''srv-1''), (''external_type'', VStr ''server''),
                       (''external_resource'', VDict (server_object ''ACTIVE'' VNone)),
                       (''external_name'', VStr ''my-server'')]\<rparr>)
                   (server_object ''ACTIVE'' VNone)))"
  by (simp add: boot_volume_targets_def ctx_external_two_boot_def ctx_of_def boot_volume_def K0_def
      dict_get_def dict_get_default_def OPENSTACK_TYPE_PROPERTY_def
      create_def use_external_resource_def is_external_resource_def
      is_external_resource_by_properties_def has_key_def USE_EXTERNAL_RESOURCE_PROPERTY_def
      get_resource_by_name_or_id_from_ctx_def get_resource_by_name_or_id_def dict_item_def
      OPENSTACK_ID_PROPERTY_def cosmo_get_if_exists_def cosmo_get_def client_with_server_def
      client_of_def SERVER_OPENSTACK_TYPE_def resource_truthy_def get_id_from_resource_def
      get_name_from_resource_def getattr_def server_object_def dict_set_def
      OPENSTACK_RESOURCE_PROPERTY_def OPENSTACK_NAME_PROPERTY_def Let_def)

end
